theory Spec2Isabelle
  imports Main
begin

section \<open>Holiday and lunar-date classification of the Korean calendar component\<close>

text \<open>
  The development embeds the classification functions of
  \<^verbatim>\<open>src/components/Calendar.tsx\<close>: \<^verbatim>\<open>getLunarDate\<close>,
  \<^verbatim>\<open>getLunarHolidayInfo\<close>, \<^verbatim>\<open>getHolidaySubstituteType\<close>,
  \<^verbatim>\<open>isDateHoliday\<close>, \<^verbatim>\<open>findNextWorkday\<close>,
  \<^verbatim>\<open>checkForSubstituteHoliday\<close>, \<^verbatim>\<open>getSubstituteHolidayInfo\<close> and
  \<^verbatim>\<open>getAllHolidayInfo\<close>.

  The two libraries the component calls are parameters of the model: the solar-to-lunar
  converter (\<^verbatim>\<open>korean-lunar-calendar\<close>) is a function that may fail, and the
  holiday source (\<^verbatim>\<open>date-holidays\<close>) is a function from a year to a list of entries.
\<close>

subsection \<open>Strings\<close>

text \<open>
  A JavaScript string is a sequence of UTF-16 code units. The holiday names are Hangul, so
  each constant below lists the code units of the literal in the source, with its
  romanisation.
\<close>

type_synonym jsstring = "nat list"

fun startsWith :: "jsstring \<Rightarrow> jsstring \<Rightarrow> bool" where
  "startsWith s [] = True"
| "startsWith [] (c # cs) = False"
| "startsWith (x # xs) (c # cs) = (x = c \<and> startsWith xs cs)"

text \<open>\<^verbatim>\<open>s.includes(t)\<close>: \<open>t\<close> occurs in \<open>s\<close> as a contiguous run of code units.\<close>

fun str_includes :: "jsstring \<Rightarrow> jsstring \<Rightarrow> bool" where
  "str_includes [] t = (t = [])"
| "str_includes (x # xs) t = (startsWith (x # xs) t \<or> str_includes xs t)"

text \<open>Jeheonjeol (Constitution Day), U+C81C U+D5CC U+C808.\<close>
definition jeheonjeol :: jsstring where "jeheonjeol = [51228, 54732, 51208]"

text \<open>Chuseok (Harvest Festival), U+CD94 U+C11D.\<close>
definition chuseok :: jsstring where "chuseok = [52628, 49437]"

text \<open>Seollal (Lunar New Year), U+C124 U+B0A0.\<close>
definition seollal :: jsstring where "seollal = [49444, 45216]"

text \<open>Sinjeong (New Year's Day, 1 January), U+C2E0 U+C815.\<close>
definition sinjeong :: jsstring where "sinjeong = [49888, 51221]"

text \<open>Seollal yeonhyu (Lunar New Year holiday), the name of the day before and after.\<close>
definition seollal_yeonhyu :: jsstring where
  "seollal_yeonhyu = [49444, 45216, 32, 50672, 55092]"

text \<open>Chuseok yeonhyu (Harvest Festival holiday), the name of the day before and after.\<close>
definition chuseok_yeonhyu :: jsstring where
  "chuseok_yeonhyu = [52628, 49437, 32, 50672, 55092]"

text \<open>Daeche gonghyuil (substitute holiday), U+B300 U+CCB4 U+ACF5 U+D734 U+C77C.\<close>
definition daeche_gonghyuil :: jsstring where
  "daeche_gonghyuil = [45824, 52404, 44277, 55092, 51068]"

text \<open>
  The three groups of \<^verbatim>\<open>getHolidaySubstituteType\<close>. Group 1: Samiljeol (written two
  ways), Gwangbokjeol, Gaecheonjeol, Hangeullal, Eorininal. Group 2: Seollal, Chuseok.
  Group 3: Sinjeong, Bucheonim osinnal, Hyeonchungil, Gidoktansinil, Seongtanjeol.
\<close>

definition group1Holidays :: "jsstring list" where
  "group1Holidays =
     [[49340, 51068, 51208], [51, 183, 49, 51208], [44305, 48373, 51208],
      [44060, 52380, 51208], [54620, 44544, 45216], [50612, 47536, 51060, 45216]]"

definition group2Holidays :: "jsstring list" where
  "group2Holidays = [seollal, chuseok]"

definition group3Holidays :: "jsstring list" where
  "group3Holidays =
     [sinjeong, [48512, 52376, 45784, 32, 50724, 49888, 45216], [54788, 52649, 51068],
      [44592, 46021, 53444, 49888, 51068], [49457, 53444, 51208]]"

text \<open>
  A number inside a template literal: the decimal digits, with a minus sign for a
  negative integer.
\<close>

fun digits :: "nat \<Rightarrow> jsstring" where
  "digits n = (if n < 10 then [48 + n] else digits (n div 10) @ [48 + n mod 10])"

definition numToString :: "int \<Rightarrow> jsstring" where
  "numToString i = (if i < 0 then 45 # digits (nat (- i)) else digits (nat i))"

subsection \<open>Dates\<close>

text \<open>
  A \<^verbatim>\<open>Date\<close> holding local midnight is its day number, counted from 1 January 1970.
  \<^verbatim>\<open>toDateString\<close> of two such dates agree exactly when the day numbers do, and
  \<^verbatim>\<open>setDate(getDate() + k)\<close> adds \<open>k\<close> to the day number. The constructor
  \<^verbatim>\<open>new Date(year, monthIndex, day)\<close> follows ECMAScript's MakeDay: the month index
  carries into the year, the day of the month is added as an offset, and a year from 0 to 99
  means 1900 + year. Numbers are integers inside the range in which a \<^verbatim>\<open>Date\<close> is
  valid.
\<close>

type_synonym jsdate = int

definition inLeapYear :: "int \<Rightarrow> bool" where
  "inLeapYear y = (y mod 4 = 0 \<and> (y mod 100 \<noteq> 0 \<or> y mod 400 = 0))"

definition dayFromYear :: "int \<Rightarrow> int" where
  "dayFromYear y =
     365 * (y - 1970) + (y - 1969) div 4 - (y - 1901) div 100 + (y - 1601) div 400"

definition daysBeforeMonth :: "int \<Rightarrow> bool \<Rightarrow> int" where
  "daysBeforeMonth mn leap =
     [0, 31, 59, 90, 120, 151, 181, 212, 243, 273, 304, 334] ! nat mn
       + (if leap \<and> 2 \<le> mn then 1 else 0)"

definition newDate :: "int \<Rightarrow> int \<Rightarrow> int \<Rightarrow> jsdate" where
  "newDate year monthIndex day =
     (let yr = (if 0 \<le> year \<and> year \<le> 99 then 1900 + year else year);
          ym = yr + monthIndex div 12;
          mn = monthIndex mod 12
      in dayFromYear ym + daysBeforeMonth mn (inLeapYear ym) + day - 1)"

text \<open>The calendar fields of a day number: year, month (1 to 12) and day of the month.\<close>

definition civil :: "jsdate \<Rightarrow> int \<times> int \<times> int" where
  "civil z =
     (let z' = z + 719468;
          era = z' div 146097;
          doe = z' mod 146097;
          yoe = (doe - doe div 1460 + doe div 36524 - doe div 146096) div 365;
          doy = doe - (365 * yoe + yoe div 4 - yoe div 100);
          mp = (5 * doy + 2) div 153;
          d = doy - (153 * mp + 2) div 5 + 1;
          m = (if mp < 10 then mp + 3 else mp - 9);
          y = yoe + era * 400 + (if m \<le> 2 then 1 else 0)
      in (y, m, d))"

definition getFullYear :: "jsdate \<Rightarrow> int" where
  "getFullYear z = fst (civil z)"

definition getMonth :: "jsdate \<Rightarrow> int" where
  "getMonth z = fst (snd (civil z)) - 1"

definition getDate :: "jsdate \<Rightarrow> int" where
  "getDate z = snd (snd (civil z))"

text \<open>\<^verbatim>\<open>getDay\<close>: 0 is Sunday, 6 is Saturday; 1 January 1970 was a Thursday.\<close>

definition getDay :: "jsdate \<Rightarrow> int" where
  "getDay z = (z + 4) mod 7"

subsection \<open>The converter and the lunar marker\<close>

record lunar =
  lunarYear :: int
  lunarMonth :: int
  lunarDay :: int
  intercalation :: bool

text \<open>
  \<^verbatim>\<open>setSolarDate(year, month, day)\<close> followed by \<^verbatim>\<open>getLunarCalendar()\<close>;
  \<open>None\<close> is the exception that the surrounding \<^verbatim>\<open>try\<close> catches.
\<close>

type_synonym converter = "int \<Rightarrow> int \<Rightarrow> int \<Rightarrow> lunar option"

text \<open>The converter applied to the fields of a \<^verbatim>\<open>Date\<close>.\<close>

definition solarToLunar :: "converter \<Rightarrow> jsdate \<Rightarrow> lunar option" where
  "solarToLunar conv dt = conv (getFullYear dt) (getMonth dt + 1) (getDate dt)"

text \<open>The marker: Eum (U+C74C), a space, the lunar month, a full stop, the lunar day.\<close>

definition marker :: "int \<Rightarrow> int \<Rightarrow> jsstring" where
  "marker m d = [51020, 32] @ numToString m @ [46] @ numToString d"

text \<open>The body of \<^verbatim>\<open>getLunarDate\<close> on a cache miss.\<close>

definition computeLunarDate :: "converter \<Rightarrow> int \<Rightarrow> int \<Rightarrow> int \<Rightarrow> jsstring" where
  "computeLunarDate conv year month day =
     (case conv year month day of
        None \<Rightarrow> []
      | Some lunarDate \<Rightarrow>
          if lunarDay lunarDate = 1 \<or> lunarDay lunarDate = 15
          then marker (lunarMonth lunarDate) (lunarDay lunarDate)
          else
            (case solarToLunar conv (newDate year (month - 1) (day + 1)) of
               None \<Rightarrow> []
             | Some nextLunarDate \<Rightarrow>
                 if lunarDay nextLunarDate = 1
                 then marker (lunarMonth lunarDate) (lunarDay lunarDate)
                 else []))"

text \<open>
  \<^verbatim>\<open>lunarCache\<close> maps the key built from year, month and day to the marker; the key
  string determines the three integers, so the triple stands for it.
\<close>

type_synonym lunarCache = "int \<times> int \<times> int \<rightharpoonup> jsstring"

definition getLunarDate ::
  "converter \<Rightarrow> lunarCache \<Rightarrow> int \<Rightarrow> int \<Rightarrow> int \<Rightarrow> jsstring \<times> lunarCache" where
  "getLunarDate conv cache year month day =
     (case cache (year, month, day) of
        Some r \<Rightarrow> (r, cache)
      | None \<Rightarrow>
          (let result = computeLunarDate conv year month day
           in (result, cache((year, month, day) \<mapsto> result))))"

subsection \<open>The lunar holiday spans\<close>

datatype holidayType = Normal | Substitute | LunarNewYear | Chuseok | NoType

record holidayInfo =
  iname :: jsstring
  itype :: holidayType

definition noInfo :: holidayInfo where
  "noInfo = \<lparr>iname = [], itype = NoType\<rparr>"

text \<open>
  One guarded probe of \<^verbatim>\<open>getLunarHolidayInfo\<close>: the neighbouring day is converted
  inside its own \<^verbatim>\<open>try\<close>, and a failure falls through to the next rule.
\<close>

definition probeNewYear :: "converter \<Rightarrow> jsdate \<Rightarrow> bool" where
  "probeNewYear conv dt =
     (case solarToLunar conv dt of
        None \<Rightarrow> False
      | Some l \<Rightarrow> lunarMonth l = 1 \<and> lunarDay l = 1)"

definition getLunarHolidayInfo :: "converter \<Rightarrow> int \<Rightarrow> int \<Rightarrow> int \<Rightarrow> holidayInfo" where
  "getLunarHolidayInfo conv year month day =
     (case conv year month day of
        None \<Rightarrow> noInfo
      | Some lunarDate \<Rightarrow>
          if lunarMonth lunarDate = 1 \<and> lunarDay lunarDate = 1
          then \<lparr>iname = seollal, itype = LunarNewYear\<rparr>
          else if probeNewYear conv (newDate year (month - 1) (day + 1))
          then \<lparr>iname = seollal_yeonhyu, itype = LunarNewYear\<rparr>
          else if probeNewYear conv (newDate year (month - 1) (day - 1))
          then \<lparr>iname = seollal_yeonhyu, itype = LunarNewYear\<rparr>
          else if lunarMonth lunarDate = 8
                  \<and> (lunarDay lunarDate = 14 \<or> lunarDay lunarDate = 15
                       \<or> lunarDay lunarDate = 16)
          then (if lunarDay lunarDate = 15
                then \<lparr>iname = chuseok, itype = Chuseok\<rparr>
                else \<lparr>iname = chuseok_yeonhyu, itype = Chuseok\<rparr>)
          else noInfo)"

subsection \<open>Substitution groups\<close>

datatype substituteType = Full | SundayOnly | NoSubstitute

definition getHolidaySubstituteType :: "jsstring \<Rightarrow> substituteType" where
  "getHolidaySubstituteType holidayName =
     (if list_ex (\<lambda>h. str_includes holidayName h) group1Holidays then Full
      else if list_ex (\<lambda>h. str_includes holidayName h) group2Holidays then SundayOnly
      else if list_ex (\<lambda>h. str_includes holidayName h) group3Holidays then NoSubstitute
      else NoSubstitute)"

subsection \<open>The holiday source\<close>

text \<open>
  An entry of \<^verbatim>\<open>getHolidays(year)\<close>: \<open>hdate\<close> is the calendar day that
  \<^verbatim>\<open>new Date(holiday.date)\<close> falls on, \<open>substitute\<close> the optional flag (absent
  reads as false).
\<close>

record holiday =
  hdate :: jsdate
  hname :: jsstring
  substitute :: bool

type_synonym holidaySource = "int \<Rightarrow> holiday list"

subsection \<open>Is a date a holiday\<close>

text \<open>
  The loop of \<^verbatim>\<open>isDateHoliday\<close> over the list: an entry of the day returns true
  unless its name contains Jeheonjeol, which continues with the next entry.
\<close>

fun listedHoliday :: "jsdate \<Rightarrow> holiday list \<Rightarrow> bool" where
  "listedHoliday date [] = False"
| "listedHoliday date (h # hs) =
     (if hdate h = date
      then (if str_includes (hname h) jeheonjeol then listedHoliday date hs else True)
      else listedHoliday date hs)"

definition isDateHoliday :: "converter \<Rightarrow> jsdate \<Rightarrow> holiday list \<Rightarrow> bool" where
  "isDateHoliday conv date holidayList =
     (if listedHoliday date holidayList then True
      else iname (getLunarHolidayInfo conv (getFullYear date) (getMonth date + 1)
                    (getDate date)) \<noteq> [])"

subsection \<open>The next workday\<close>

text \<open>
  The loop of \<^verbatim>\<open>findNextWorkday\<close> has no bound: it runs for as long as every day is a
  weekend day or a holiday. \<open>None\<close> is the loop that never ends.
\<close>

partial_function (option) nextWorkdayFrom ::
  "converter \<Rightarrow> holiday list \<Rightarrow> jsdate \<Rightarrow> jsdate option" where
  "nextWorkdayFrom conv holidayList nextDay =
     (if getDay nextDay = 0 \<or> getDay nextDay = 6
      then nextWorkdayFrom conv holidayList (nextDay + 1)
      else if \<not> isDateHoliday conv nextDay holidayList then Some nextDay
      else nextWorkdayFrom conv holidayList (nextDay + 1))"

definition findNextWorkday :: "converter \<Rightarrow> jsdate \<Rightarrow> holiday list \<Rightarrow> jsdate option" where
  "findNextWorkday conv fromDate holidayList = nextWorkdayFrom conv holidayList (fromDate + 1)"

subsection \<open>Does an origin create a substitute holiday\<close>

record taggedHoliday =
  tname :: jsstring
  ttype :: substituteType

text \<open>The first loop of \<^verbatim>\<open>checkForSubstituteHoliday\<close>: the entries of the day.\<close>

fun listedOnDate :: "jsdate \<Rightarrow> holiday list \<Rightarrow> taggedHoliday list" where
  "listedOnDate originalDate [] = []"
| "listedOnDate originalDate (h # hs) =
     (if hdate h = originalDate
      then (if str_includes (hname h) jeheonjeol then listedOnDate originalDate hs
            else \<lparr>tname = hname h, ttype = getHolidaySubstituteType (hname h)\<rparr>
                   # listedOnDate originalDate hs)
      else listedOnDate originalDate hs)"

text \<open>\<^verbatim>\<open>holidaysOnDate\<close> once the lunar holiday of the day has been pushed.\<close>

definition holidaysOnDate :: "converter \<Rightarrow> jsdate \<Rightarrow> holiday list \<Rightarrow> taggedHoliday list" where
  "holidaysOnDate conv originalDate holidayList =
     (let lunarInfo = getLunarHolidayInfo conv (getFullYear originalDate)
                        (getMonth originalDate + 1) (getDate originalDate)
      in listedOnDate originalDate holidayList
           @ (if iname lunarInfo \<noteq> []
              then [\<lparr>tname = iname lunarInfo,
                     ttype = getHolidaySubstituteType (iname lunarInfo)\<rparr>]
              else []))"

text \<open>The callback of \<^verbatim>\<open>holidaysOnDate.some\<close>.\<close>

definition createsSubstitute :: "int \<Rightarrow> taggedHoliday list \<Rightarrow> taggedHoliday \<Rightarrow> bool" where
  "createsSubstitute originalDayOfWeek hs h =
     (if ttype h = NoSubstitute then False
      else if ttype h = Full
      then originalDayOfWeek = 0 \<or> originalDayOfWeek = 6 \<or> length hs > 1
      else if ttype h = SundayOnly
      then (if originalDayOfWeek = 0 then True
            else if length hs > 1
            then list_ex (\<lambda>other. \<not> str_includes (tname other) seollal
                                    \<and> \<not> str_includes (tname other) chuseok) hs
            else False)
      else False)"

definition shouldCreateSubstitute :: "int \<Rightarrow> taggedHoliday list \<Rightarrow> bool" where
  "shouldCreateSubstitute originalDayOfWeek hs =
     list_ex (createsSubstitute originalDayOfWeek hs) hs"

definition checkForSubstituteHoliday ::
  "converter \<Rightarrow> jsdate \<Rightarrow> jsdate \<Rightarrow> holiday list \<Rightarrow> bool option" where
  "checkForSubstituteHoliday conv originalDate targetDate holidayList =
     (let originalDayOfWeek = getDay originalDate;
          hs = holidaysOnDate conv originalDate holidayList
      in if length hs = 0 then Some False
         else if \<not> shouldCreateSubstitute originalDayOfWeek hs then Some False
         else (case findNextWorkday conv originalDate holidayList of
                 None \<Rightarrow> None
               | Some nextWorkday \<Rightarrow> Some (nextWorkday = targetDate)))"

subsection \<open>The substitute holiday search\<close>

definition substituteInfo :: holidayInfo where
  "substituteInfo = \<lparr>iname = daeche_gonghyuil, itype = Substitute\<rparr>"

text \<open>The loop over \<^verbatim>\<open>daysBack\<close> from its current value up to 7.\<close>

function lookBack ::
  "converter \<Rightarrow> jsdate \<Rightarrow> holiday list \<Rightarrow> int \<Rightarrow> holidayInfo option" where
  "lookBack conv targetDate holidayList daysBack =
     (if daysBack \<le> 7
      then (case checkForSubstituteHoliday conv (targetDate - daysBack) targetDate
                   holidayList of
              None \<Rightarrow> None
            | Some isSubstitute \<Rightarrow>
                if isSubstitute then Some substituteInfo
                else lookBack conv targetDate holidayList (daysBack + 1))
      else Some noInfo)"
  by pat_completeness auto
termination
  by (relation "measure (\<lambda>(conv, targetDate, holidayList, daysBack). nat (8 - daysBack))")
     auto

definition getSubstituteHolidayInfo ::
  "converter \<Rightarrow> int \<Rightarrow> int \<Rightarrow> int \<Rightarrow> holiday list \<Rightarrow> holidayInfo option" where
  "getSubstituteHolidayInfo conv year month day holidayList =
     (let targetDate = newDate year (month - 1) day;
          dayOfWeek = getDay targetDate
      in if dayOfWeek < 1 \<or> dayOfWeek > 5 then Some noInfo
         else if isDateHoliday conv targetDate holidayList then Some noInfo
         else lookBack conv targetDate holidayList 1)"

subsection \<open>The aggregate classification\<close>

text \<open>\<^verbatim>\<open>Set.add\<close>: a set of strings in insertion order.\<close>

definition setAdd :: "jsstring \<Rightarrow> jsstring list \<Rightarrow> jsstring list" where
  "setAdd x xs = (if x \<in> set xs then xs else xs @ [x])"

text \<open>
  The guard inside the loop of \<^verbatim>\<open>getAllHolidayInfo\<close> for an entry named after Chuseok:
  the requested date is converted, and the entry is skipped on the 14th, 15th or 16th of the
  ninth lunar month; a converter failure keeps the entry.
\<close>

definition ninthMonthChuseok :: "converter \<Rightarrow> int \<Rightarrow> int \<Rightarrow> int \<Rightarrow> bool" where
  "ninthMonthChuseok conv year month day =
     (case conv year month day of
        None \<Rightarrow> False
      | Some lunarDate \<Rightarrow>
          lunarMonth lunarDate = 9
          \<and> (lunarDay lunarDate = 14 \<or> lunarDay lunarDate = 15 \<or> lunarDay lunarDate = 16))"

text \<open>The type a contributing entry gives when no type has been set yet.\<close>

definition entryType :: "holiday \<Rightarrow> holidayType" where
  "entryType h =
     (if substitute h then Substitute
      else if str_includes (hname h) seollal \<or> str_includes (hname h) sinjeong
      then LunarNewYear
      else if str_includes (hname h) chuseok then Chuseok
      else Normal)"

text \<open>
  The first loop of \<^verbatim>\<open>getAllHolidayInfo\<close>, threading \<^verbatim>\<open>uniqueHolidays\<close> and
  \<^verbatim>\<open>primaryHolidayType\<close>.
\<close>

fun collectListed ::
  "converter \<Rightarrow> int \<Rightarrow> int \<Rightarrow> int \<Rightarrow> jsdate \<Rightarrow> holiday list
     \<Rightarrow> jsstring list \<times> holidayType \<Rightarrow> jsstring list \<times> holidayType" where
  "collectListed conv year month day targetDate [] st = st"
| "collectListed conv year month day targetDate (h # hs) (uniqueHolidays, primaryHolidayType) =
     (if hdate h = targetDate
      then (if str_includes (hname h) jeheonjeol
            then collectListed conv year month day targetDate hs
                   (uniqueHolidays, primaryHolidayType)
            else if str_includes (hname h) chuseok \<and> ninthMonthChuseok conv year month day
            then collectListed conv year month day targetDate hs
                   (uniqueHolidays, primaryHolidayType)
            else collectListed conv year month day targetDate hs
                   (setAdd (hname h) uniqueHolidays,
                    if primaryHolidayType = NoType then entryType h else primaryHolidayType))
      else collectListed conv year month day targetDate hs (uniqueHolidays, primaryHolidayType))"

text \<open>\<^verbatim>\<open>hasSimilarHoliday\<close>.\<close>

definition hasSimilarHoliday :: "jsstring list \<Rightarrow> jsstring \<Rightarrow> bool" where
  "hasSimilarHoliday uniqueHolidays lunarName =
     list_ex (\<lambda>h. (str_includes h chuseok \<and> str_includes lunarName chuseok)
                 \<or> (str_includes h seollal \<and> str_includes lunarName seollal))
       uniqueHolidays"

text \<open>The second step: the lunar holiday of the day joins the set unless a similar name is there.\<close>

definition addLunar ::
  "holidayInfo \<Rightarrow> jsstring list \<times> holidayType \<Rightarrow> jsstring list \<times> holidayType" where
  "addLunar lunarHolidayInfo st =
     (case st of (uniqueHolidays, primaryHolidayType) \<Rightarrow>
        if iname lunarHolidayInfo \<noteq> []
        then (if \<not> hasSimilarHoliday uniqueHolidays (iname lunarHolidayInfo)
              then (setAdd (iname lunarHolidayInfo) uniqueHolidays,
                    if primaryHolidayType = NoType then itype lunarHolidayInfo
                    else primaryHolidayType)
              else st)
        else st)"

record classification =
  cname :: jsstring
  cnames :: "jsstring list"
  ctype :: holidayType

text \<open>\<^verbatim>\<open>allHolidays[0] || ''\<close>.\<close>

definition firstName :: "jsstring list \<Rightarrow> jsstring" where
  "firstName allHolidays = (case allHolidays of [] \<Rightarrow> [] | n # ns \<Rightarrow> n)"

definition result :: "jsstring list \<times> holidayType \<Rightarrow> classification" where
  "result st = \<lparr>cname = firstName (fst st), cnames = fst st, ctype = snd st\<rparr>"

text \<open>
  \<^verbatim>\<open>getAllHolidayInfo\<close> once the list of the year has been read from the cache. The
  outcome is \<open>None\<close> when the search for the next workday never ends.
\<close>

definition classifyWith ::
  "converter \<Rightarrow> holiday list \<Rightarrow> int \<Rightarrow> int \<Rightarrow> int \<Rightarrow> classification option" where
  "classifyWith conv holidayList year month day =
     (let targetDate = newDate year (month - 1) day;
          st1 = collectListed conv year month day targetDate holidayList ([], NoType);
          st2 = addLunar (getLunarHolidayInfo conv year month day) st1
      in if length (fst st2) = 0
         then (case getSubstituteHolidayInfo conv year month day holidayList of
                 None \<Rightarrow> None
               | Some info \<Rightarrow>
                   if iname info \<noteq> []
                   then Some (result (setAdd (iname info) (fst st2), itype info))
                   else Some (result st2))
         else Some (result st2))"

text \<open>\<^verbatim>\<open>holidayCache\<close>: the list of a year is fetched on the first request for it.\<close>

type_synonym holidayCache = "int \<rightharpoonup> holiday list"

definition cachedHolidays ::
  "holidaySource \<Rightarrow> holidayCache \<Rightarrow> int \<Rightarrow> holiday list \<times> holidayCache" where
  "cachedHolidays holidays cache year =
     (case cache year of
        Some holidayList \<Rightarrow> (holidayList, cache)
      | None \<Rightarrow> (holidays year, cache(year \<mapsto> holidays year)))"

definition getAllHolidayInfo ::
  "holidaySource \<Rightarrow> converter \<Rightarrow> holidayCache \<Rightarrow> int \<Rightarrow> int \<Rightarrow> int
     \<Rightarrow> (classification \<times> holidayCache) option" where
  "getAllHolidayInfo holidays conv cache year month day =
     (case cachedHolidays holidays cache year of (holidayList, cache') \<Rightarrow>
        (case classifyWith conv holidayList year month day of
           None \<Rightarrow> None
         | Some c \<Rightarrow> Some (c, cache')))"

subsection \<open>Contributing entries\<close>

text \<open>
  The entries of the list that the first loop of \<^verbatim>\<open>getAllHolidayInfo\<close> lets through:
  those of the requested day, without Jeheonjeol and without a Chuseok entry that the
  ninth-month guard skips. \<open>insertionOrder\<close> is the content of a \<^verbatim>\<open>Set\<close> after adding
  the elements of a list one by one: the first occurrence of each, in order.
\<close>

definition contributes :: "converter \<Rightarrow> int \<Rightarrow> int \<Rightarrow> int \<Rightarrow> holiday \<Rightarrow> bool" where
  "contributes conv year month day h =
     (hdate h = newDate year (month - 1) day
      \<and> \<not> str_includes (hname h) jeheonjeol
      \<and> \<not> (str_includes (hname h) chuseok \<and> ninthMonthChuseok conv year month day))"

definition insertionOrder :: "jsstring list \<Rightarrow> jsstring list" where
  "insertionOrder xs = rev (remdups (rev xs))"

subsection \<open>Cache invariants\<close>

text \<open>
  Both caches are private to the component and written only by the two functions above, so
  every entry is the value the function computes for its key.
\<close>

definition cacheValid :: "converter \<Rightarrow> lunarCache \<Rightarrow> bool" where
  "cacheValid conv cache =
     (\<forall>y m d r. cache (y, m, d) = Some r \<longrightarrow> r = computeLunarDate conv y m d)"

definition cacheOf :: "holidaySource \<Rightarrow> holidayCache \<Rightarrow> bool" where
  "cacheOf holidays cache = (\<forall>y l. cache y = Some l \<longrightarrow> l = holidays y)"

subsection \<open>Sample data\<close>

text \<open>
  The converter on the days around Seollal 2024: 9 February is the 30th of the twelfth lunar
  month, 10 February the first day of the lunar year, 11 February the second. It fails
  everywhere else.
\<close>

definition conv2024 :: converter where
  "conv2024 y m d =
     (if y = 2024 \<and> m = 2 \<and> d = 9
      then Some \<lparr>lunarYear = 2023, lunarMonth = 12, lunarDay = 30, intercalation = False\<rparr>
      else if y = 2024 \<and> m = 2 \<and> d = 10
      then Some \<lparr>lunarYear = 2024, lunarMonth = 1, lunarDay = 1, intercalation = False\<rparr>
      else if y = 2024 \<and> m = 2 \<and> d = 11
      then Some \<lparr>lunarYear = 2024, lunarMonth = 1, lunarDay = 2, intercalation = False\<rparr>
      else None)"

text \<open>A converter that always fails, and one that puts every day in a fixed lunar month.\<close>

definition convFails :: converter where
  "convFails y m d = None"

definition convMonth :: "int \<Rightarrow> converter" where
  "convMonth lm y m d =
     Some \<lparr>lunarYear = y, lunarMonth = lm, lunarDay = 15, intercalation = False\<rparr>"

text \<open>
  Gwangbokjeol (Liberation Day) 2026 falls on Saturday 15 August; the list holds that one
  entry.
\<close>

definition liberation2026 :: "holiday list" where
  "liberation2026 =
     [\<lparr>hdate = newDate 2026 7 15, hname = [44305, 48373, 51208], substitute = False\<rparr>]"

text \<open>
  Sources of one entry. Sinjeong on Monday 1 January 2024; Eorininal (Children's Day) on
  Sunday 5 May 2024; Chuseok on Tuesday 17 September 2024; Jeheonjeol on Wednesday 17 July
  2024; Samiljeol on Friday 1 March 2024; Seongtanjeol (Christmas) on Sunday 25 December
  2022; and a source with no entry at all.
\<close>

definition newYear2024 :: holidaySource where
  "newYear2024 y =
     (if y = 2024
      then [\<lparr>hdate = newDate 2024 0 1, hname = sinjeong, substitute = False\<rparr>]
      else [])"

definition childrensDay2024 :: holidaySource where
  "childrensDay2024 y =
     (if y = 2024
      then [\<lparr>hdate = newDate 2024 4 5, hname = [50612, 47536, 51060, 45216],
             substitute = False\<rparr>]
      else [])"

definition chuseok2024 :: holidaySource where
  "chuseok2024 y =
     (if y = 2024
      then [\<lparr>hdate = newDate 2024 8 17, hname = chuseok, substitute = False\<rparr>]
      else [])"

definition jeheonjeol2024 :: holidaySource where
  "jeheonjeol2024 y =
     (if y = 2024
      then [\<lparr>hdate = newDate 2024 6 17, hname = jeheonjeol, substitute = False\<rparr>]
      else [])"

definition samiljeol2024 :: holidaySource where
  "samiljeol2024 y =
     (if y = 2024
      then [\<lparr>hdate = newDate 2024 2 1, hname = [49340, 51068, 51208], substitute = False\<rparr>]
      else [])"

definition christmas2022 :: holidaySource where
  "christmas2022 y =
     (if y = 2022
      then [\<lparr>hdate = newDate 2022 11 25, hname = [49457, 53444, 51208],
             substitute = False\<rparr>]
      else [])"

definition noHolidays :: holidaySource where
  "noHolidays y = []"

text \<open>
  A source that already lists the substitute holiday of Eorininal 2024: Sunday 5 May, and
  Monday 6 May flagged as a substitute.
\<close>

definition flagged2024 :: holidaySource where
  "flagged2024 y =
     (if y = 2024
      then [\<lparr>hdate = newDate 2024 4 5, hname = [50612, 47536, 51060, 45216],
             substitute = False\<rparr>,
            \<lparr>hdate = newDate 2024 4 6, hname = daeche_gonghyuil, substitute = True\<rparr>]
      else [])"

text \<open>
  Two sources with a Chuseok entry a month late, on the 15th of the ninth lunar month.
  In 2022 that day is Monday 10 October, the day after Hangeullal on Sunday 9 October; in
  2019 it is Sunday 13 October.
\<close>

definition hangeul2022 :: holidaySource where
  "hangeul2022 y =
     (if y = 2022
      then [\<lparr>hdate = newDate 2022 9 9, hname = [54620, 44544, 45216], substitute = False\<rparr>,
            \<lparr>hdate = newDate 2022 9 10, hname = chuseok, substitute = False\<rparr>]
      else [])"

definition chuseok2019 :: holidaySource where
  "chuseok2019 y =
     (if y = 2019
      then [\<lparr>hdate = newDate 2019 9 13, hname = chuseok, substitute = False\<rparr>]
      else [])"

text \<open>The two caches before the first request.\<close>

definition noCache :: holidayCache where
  "noCache = Map.empty"

definition noLunarCache :: lunarCache where
  "noLunarCache = Map.empty"

section \<open>Properties\<close>

subsection \<open>Dates\<close>

lemma newDate_succ: "newDate y mi (d + 1) = newDate y mi d + 1"
  by (simp add: newDate_def Let_def)

lemma newDate_pred: "newDate y mi (d - 1) = newDate y mi d - 1"
  by (simp add: newDate_def Let_def)

subsection \<open>The lunar holiday spans\<close>



text \<open>The days from 9 to 12 February 2024 as day numbers, and their calendar fields.\<close>

lemma february_2024_days:
  "newDate 2024 1 9 = 19762" "newDate 2024 1 10 = 19763" "newDate 2024 1 11 = 19764"
  by (simp_all add: newDate_def dayFromYear_def daysBeforeMonth_def inLeapYear_def Let_def)

lemma fields_2024_02_10:
  "getFullYear 19763 = 2024" "getMonth 19763 = 1" "getDate 19763 = 10"
  by code_simp+



subsection \<open>The lunar marker\<close>

lemma cacheValid_empty: "cacheValid conv Map.empty"
  by (simp add: cacheValid_def)

lemma getLunarDate_fst:
  "cacheValid conv cache \<Longrightarrow> fst (getLunarDate conv cache y m d) = computeLunarDate conv y m d"
  by (auto simp: getLunarDate_def cacheValid_def Let_def split: option.splits)

lemma getLunarDate_cacheValid:
  "cacheValid conv cache \<Longrightarrow> cacheValid conv (snd (getLunarDate conv cache y m d))"
  by (auto simp: getLunarDate_def cacheValid_def Let_def split: option.splits)

lemma marker_nonempty: "marker a b \<noteq> []"
  by (simp add: marker_def)

lemma numToString_one_digit: "0 \<le> k \<Longrightarrow> k < 10 \<Longrightarrow> numToString k = [48 + nat k]"
  by (simp add: numToString_def)

lemma numToString_two_digits:
  assumes "10 \<le> k" and "k < 100"
  shows "numToString k = [48 + nat k div 10, 48 + nat k mod 10]"
proof -
  from assms have "\<not> nat k < 10" and "nat k div 10 < 10"
    by simp_all
  then have "digits (nat k) = [48 + nat k div 10, 48 + nat k mod 10]"
    by (subst digits.simps) simp
  with assms show ?thesis
    by (simp add: numToString_def)
qed

text \<open>
  Claim C8. Let the lunar cache hold only values that \<^verbatim>\<open>getLunarDate\<close> stored, and let
  the converter succeed on the day. Then \<^verbatim>\<open>getLunarDate\<close> returns the marker exactly
  when the lunar day is 1 or 15 or the converter, given the year, month and day of the next
  day, answers lunar day 1; otherwise, also when the converter fails on the next day, it
  returns the empty string. The marker is Eum (U+C74C), a space, the lunar month of the day
  itself, a full stop and its lunar day, both numbers in decimal: one digit below 10, two
  digits from 10 to 99. The cache keeps its invariant.
\<close>

theorem lunar_marker:
  assumes "cacheValid conv cache" and "conv y m d = Some l"
  shows "fst (getLunarDate conv cache y m d) =
           (if lunarDay l = 1 \<or> lunarDay l = 15
               \<or> (\<exists>n. conv (getFullYear (newDate y (m - 1) d + 1))
                         (getMonth (newDate y (m - 1) d + 1) + 1)
                         (getDate (newDate y (m - 1) d + 1)) = Some n
                      \<and> lunarDay n = 1)
            then [51020, 32] @ numToString (lunarMonth l) @ [46] @ numToString (lunarDay l)
            else [])
         \<and> (\<forall>k. 0 \<le> k \<and> k < 10 \<longrightarrow> numToString k = [48 + nat k])
         \<and> (\<forall>k. 10 \<le> k \<and> k < 100
               \<longrightarrow> numToString k = [48 + nat k div 10, 48 + nat k mod 10])
         \<and> cacheValid conv (snd (getLunarDate conv cache y m d))"
proof -
  from assms have "fst (getLunarDate conv cache y m d) =
           (if lunarDay l = 1 \<or> lunarDay l = 15
               \<or> (\<exists>n. conv (getFullYear (newDate y (m - 1) d + 1))
                         (getMonth (newDate y (m - 1) d + 1) + 1)
                         (getDate (newDate y (m - 1) d + 1)) = Some n
                      \<and> lunarDay n = 1)
            then [51020, 32] @ numToString (lunarMonth l) @ [46] @ numToString (lunarDay l)
            else [])"
    by (auto simp: getLunarDate_fst computeLunarDate_def marker_def solarToLunar_def
          newDate_succ split: option.splits)
  moreover from assms(1) have "cacheValid conv (snd (getLunarDate conv cache y m d))"
    by (rule getLunarDate_cacheValid)
  ultimately show ?thesis
    by (simp add: numToString_one_digit numToString_two_digits)
qed

text \<open>
  The last day of the twelfth lunar month, 9 February 2024, read through an empty cache: the
  marker is Eum 12.30. The next day is the first of the first month: Eum 1.1.
\<close>

theorem lunar_marker_witness:
  "cacheValid conv2024 Map.empty
   \<and> conv2024 2024 2 9
       = Some \<lparr>lunarYear = 2023, lunarMonth = 12, lunarDay = 30, intercalation = False\<rparr>
   \<and> conv2024 2024 2 10
       = Some \<lparr>lunarYear = 2024, lunarMonth = 1, lunarDay = 1, intercalation = False\<rparr>
   \<and> fst (getLunarDate conv2024 Map.empty 2024 2 9) = [51020, 32, 49, 50, 46, 51, 48]
   \<and> fst (getLunarDate conv2024 Map.empty 2024 2 10) = [51020, 32, 49, 46, 49]"
proof -
  have h1: "cacheValid conv2024 Map.empty"
    by (rule cacheValid_empty)
  have h2: "conv2024 2024 2 9
              = Some \<lparr>lunarYear = 2023, lunarMonth = 12, lunarDay = 30, intercalation = False\<rparr>"
    by (simp add: conv2024_def)
  have h3: "conv2024 2024 2 10
              = Some \<lparr>lunarYear = 2024, lunarMonth = 1, lunarDay = 1, intercalation = False\<rparr>"
    by (simp add: conv2024_def)
  have twelve: "numToString 12 = [49, 50]" and thirty: "numToString 30 = [51, 48]"
    and one: "numToString 1 = [49]"
    by (simp_all add: numToString_def)
  from conjunct1 [OF lunar_marker [OF h1 h2]] have
    last_day: "fst (getLunarDate conv2024 Map.empty 2024 2 9) = [51020, 32, 49, 50, 46, 51, 48]"
    by (simp add: february_2024_days fields_2024_02_10 h3 twelve thirty)
  from conjunct1 [OF lunar_marker [OF h1 h3]] have
    first_day: "fst (getLunarDate conv2024 Map.empty 2024 2 10) = [51020, 32, 49, 46, 49]"
    by (simp add: one)
  from h1 h2 h3 last_day first_day show ?thesis
    by simp
qed

subsection \<open>When an origin requires substitution\<close>

lemma listedOnDate_tagged:
  "h \<in> set (listedOnDate d hl) \<Longrightarrow> ttype h = getHolidaySubstituteType (tname h)"
  by (induction hl) (auto split: if_splits)

lemma holidaysOnDate_tagged:
  "h \<in> set (holidaysOnDate conv d hl) \<Longrightarrow> ttype h = getHolidaySubstituteType (tname h)"
  by (auto simp: holidaysOnDate_def Let_def listedOnDate_tagged split: if_splits)

lemma createsSubstitute_iff:
  "createsSubstitute dow hs h \<longleftrightarrow>
     (ttype h = Full \<and> (dow = 6 \<or> dow = 0 \<or> length hs > 1))
     \<or> (ttype h = SundayOnly
         \<and> (dow = 0
            \<or> (length hs > 1
               \<and> (\<exists>other \<in> set hs. \<not> str_includes (tname other) seollal
                                     \<and> \<not> str_includes (tname other) chuseok))))"
  by (cases "ttype h") (auto simp: createsSubstitute_def list_ex_iff)

text \<open>
  The test the code applies at an origin. Its holidays are the entries of the list on that
  day (without Jeheonjeol) followed by the lunar holiday of the day, each with the group of
  its name;
  substitution is required exactly when some holiday of the day is in group Full and the
  origin is a Saturday, a Sunday or has more than one holiday, or is in group SundayOnly
  and the origin is a Sunday, or has more than one holiday of which at least one has a name
  containing neither Seollal nor Chuseok. A holiday of group NoSubstitute never requires it.
\<close>

theorem substitution_required:
  "shouldCreateSubstitute (getDay origin) (holidaysOnDate conv origin hl) \<longleftrightarrow>
     (\<exists>h \<in> set (holidaysOnDate conv origin hl).
        (getHolidaySubstituteType (tname h) = Full
         \<and> (getDay origin = 6 \<or> getDay origin = 0
            \<or> length (holidaysOnDate conv origin hl) > 1))
        \<or> (getHolidaySubstituteType (tname h) = SundayOnly
            \<and> (getDay origin = 0
               \<or> (length (holidaysOnDate conv origin hl) > 1
                  \<and> (\<exists>other \<in> set (holidaysOnDate conv origin hl).
                        \<not> str_includes (tname other) seollal
                        \<and> \<not> str_includes (tname other) chuseok)))))"
  unfolding shouldCreateSubstitute_def list_ex_iff createsSubstitute_iff
  by (rule bex_cong [OF refl]) (simp add: holidaysOnDate_tagged)

lemma day_2026_08_15: "newDate 2026 7 15 = 20680"
  by (simp add: newDate_def dayFromYear_def daysBeforeMonth_def inLeapYear_def Let_def)

lemma liberation2026_on_date:
  "holidaysOnDate convFails 20680 liberation2026
     = [\<lparr>tname = [44305, 48373, 51208], ttype = Full\<rparr>]"
  by (simp add: holidaysOnDate_def getLunarHolidayInfo_def convFails_def noInfo_def
        liberation2026_def day_2026_08_15 getHolidaySubstituteType_def group1Holidays_def
        jeheonjeol_def Let_def)

text \<open>Saturday 15 August 2026 with Gwangbokjeol, a holiday of group Full.\<close>

theorem substitution_required_witness:
  "shouldCreateSubstitute (getDay 20680) (holidaysOnDate convFails 20680 liberation2026)
   \<and> getDay 20680 = 6
   \<and> holidaysOnDate convFails 20680 liberation2026
       = [\<lparr>tname = [44305, 48373, 51208], ttype = Full\<rparr>]
   \<and> getHolidaySubstituteType [44305, 48373, 51208] = Full"
proof -
  have dow: "getDay 20680 = 6"
    by (simp add: getDay_def)
  have full: "getHolidaySubstituteType [44305, 48373, 51208] = Full"
    by (simp add: getHolidaySubstituteType_def group1Holidays_def)
  from substitution_required [of 20680 convFails liberation2026] dow full
  show ?thesis
    by (simp add: liberation2026_on_date)
qed

lemma check_not_required:
  "\<not> shouldCreateSubstitute (getDay origin) (holidaysOnDate conv origin hl)
   \<Longrightarrow> checkForSubstituteHoliday conv origin target hl = Some False"
  by (simp add: checkForSubstituteHoliday_def Let_def)

lemma check_required:
  "shouldCreateSubstitute (getDay origin) (holidaysOnDate conv origin hl)
   \<Longrightarrow> checkForSubstituteHoliday conv origin target hl
         = map_option (\<lambda>w. w = target) (findNextWorkday conv origin hl)"
  by (auto simp: checkForSubstituteHoliday_def Let_def shouldCreateSubstitute_def
           split: option.splits)

subsection \<open>The substitute holiday search\<close>

lemma nextWorkdayFrom_stop:
  "getDay t \<noteq> 0 \<Longrightarrow> getDay t \<noteq> 6 \<Longrightarrow> \<not> isDateHoliday conv t hl
   \<Longrightarrow> nextWorkdayFrom conv hl t = Some t"
  by (subst nextWorkdayFrom.simps) simp

lemma nextWorkdayFrom_skip:
  "getDay x = 0 \<or> getDay x = 6 \<or> isDateHoliday conv x hl
   \<Longrightarrow> nextWorkdayFrom conv hl x = nextWorkdayFrom conv hl (x + 1)"
  by (subst nextWorkdayFrom.simps) auto

lemma nextWorkdayFrom_bounded:
  assumes "getDay t \<noteq> 0" and "getDay t \<noteq> 6" and "\<not> isDateHoliday conv t hl"
  shows "n = nat (t - start) \<Longrightarrow> start \<le> t \<Longrightarrow>
         \<exists>w. nextWorkdayFrom conv hl start = Some w \<and> start \<le> w \<and> w \<le> t
              \<and> (w = t \<longleftrightarrow>
                   (\<forall>x. start \<le> x \<and> x < t
                        \<longrightarrow> getDay x = 0 \<or> getDay x = 6 \<or> isDateHoliday conv x hl))"
proof (induction n arbitrary: start)
  case 0
  then have "start = t" by simp
  with assms show ?case
    by (simp add: nextWorkdayFrom_stop)
next
  case (Suc n)
  then have lt: "start < t" by simp
  show ?case
  proof (cases "getDay start = 0 \<or> getDay start = 6 \<or> isDateHoliday conv start hl")
    case True
    from Suc.prems have "n = nat (t - (start + 1))" and "start + 1 \<le> t" by simp_all
    from Suc.IH [OF this] obtain w where
      w: "nextWorkdayFrom conv hl (start + 1) = Some w" "start + 1 \<le> w" "w \<le> t"
         "w = t \<longleftrightarrow> (\<forall>x. start + 1 \<le> x \<and> x < t
                        \<longrightarrow> getDay x = 0 \<or> getDay x = 6 \<or> isDateHoliday conv x hl)"
      by blast
    have "(\<forall>x. start + 1 \<le> x \<and> x < t
              \<longrightarrow> getDay x = 0 \<or> getDay x = 6 \<or> isDateHoliday conv x hl)
          \<longleftrightarrow> (\<forall>x. start \<le> x \<and> x < t
              \<longrightarrow> getDay x = 0 \<or> getDay x = 6 \<or> isDateHoliday conv x hl)"
    proof
      assume a: "\<forall>x. start + 1 \<le> x \<and> x < t
              \<longrightarrow> getDay x = 0 \<or> getDay x = 6 \<or> isDateHoliday conv x hl"
      show "\<forall>x. start \<le> x \<and> x < t
              \<longrightarrow> getDay x = 0 \<or> getDay x = 6 \<or> isDateHoliday conv x hl"
      proof (intro allI impI)
        fix x assume "start \<le> x \<and> x < t"
        then have "x = start \<or> (start + 1 \<le> x \<and> x < t)" by arith
        with a True show "getDay x = 0 \<or> getDay x = 6 \<or> isDateHoliday conv x hl"
          by blast
      qed
    next
      assume a: "\<forall>x. start \<le> x \<and> x < t
              \<longrightarrow> getDay x = 0 \<or> getDay x = 6 \<or> isDateHoliday conv x hl"
      show "\<forall>x. start + 1 \<le> x \<and> x < t
              \<longrightarrow> getDay x = 0 \<or> getDay x = 6 \<or> isDateHoliday conv x hl"
        using a by simp
    qed
    with w nextWorkdayFrom_skip [OF True] show ?thesis
      by auto
  next
    case False
    then have "nextWorkdayFrom conv hl start = Some start"
      by (simp add: nextWorkdayFrom_stop)
    moreover from False lt have
      "\<not> (\<forall>x. start \<le> x \<and> x < t
             \<longrightarrow> getDay x = 0 \<or> getDay x = 6 \<or> isDateHoliday conv x hl)"
      by (intro notI) (drule spec [of _ start], simp)
    ultimately show ?thesis using lt by auto
  qed
qed

lemma findNextWorkday_before:
  assumes "getDay t \<noteq> 0" and "getDay t \<noteq> 6" and "\<not> isDateHoliday conv t hl"
      and "1 \<le> k"
  shows "\<exists>w. findNextWorkday conv (t - k) hl = Some w
              \<and> (w = t \<longleftrightarrow>
                   (\<forall>x. t - k < x \<and> x < t
                        \<longrightarrow> getDay x = 0 \<or> getDay x = 6 \<or> isDateHoliday conv x hl))"
proof -
  from assms(4) have le: "t - k + 1 \<le> t" by simp
  from nextWorkdayFrom_bounded [OF assms(1-3) refl le]
  obtain w where w: "nextWorkdayFrom conv hl (t - k + 1) = Some w"
     "w = t \<longleftrightarrow> (\<forall>x. t - k + 1 \<le> x \<and> x < t
                        \<longrightarrow> getDay x = 0 \<or> getDay x = 6 \<or> isDateHoliday conv x hl)"
    by blast
  have "(\<forall>x. t - k + 1 \<le> x \<and> x < t
                        \<longrightarrow> getDay x = 0 \<or> getDay x = 6 \<or> isDateHoliday conv x hl)
        \<longleftrightarrow> (\<forall>x. t - k < x \<and> x < t
                        \<longrightarrow> getDay x = 0 \<or> getDay x = 6 \<or> isDateHoliday conv x hl)"
    by (simp add: add1_zle_eq)
  with w show ?thesis
    by (simp add: findNextWorkday_def)
qed


lemma check_before:
  assumes "getDay t \<noteq> 0" and "getDay t \<noteq> 6" and "\<not> isDateHoliday conv t hl"
      and "1 \<le> k"
  shows "checkForSubstituteHoliday conv (t - k) t hl =
           Some (shouldCreateSubstitute (getDay (t - k)) (holidaysOnDate conv (t - k) hl)
                 \<and> findNextWorkday conv (t - k) hl = Some t)"
proof -
  from findNextWorkday_before [OF assms] obtain w where
    "findNextWorkday conv (t - k) hl = Some w" by blast
  then show ?thesis
    by (auto simp: checkForSubstituteHoliday_def Let_def shouldCreateSubstitute_def)
qed

lemma lookBack_result:
  assumes "getDay t \<noteq> 0" and "getDay t \<noteq> 6" and "\<not> isDateHoliday conv t hl"
  shows "1 \<le> j \<Longrightarrow>
         lookBack conv t hl j =
           Some (if \<exists>k \<in> {j..7}.
                      shouldCreateSubstitute (getDay (t - k)) (holidaysOnDate conv (t - k) hl)
                      \<and> findNextWorkday conv (t - k) hl = Some t
                 then substituteInfo else noInfo)"
proof (induction "nat (8 - j)" arbitrary: j)
  case 0
  then have "\<not> j \<le> 7" by simp
  then show ?case
    by (subst lookBack.simps) simp
next
  case (Suc n)
  then have True: "j \<le> 7" by simp
  note chk = check_before [OF assms \<open>1 \<le> j\<close>]
  show ?case
  proof (cases "shouldCreateSubstitute (getDay (t - j)) (holidaysOnDate conv (t - j) hl)
                \<and> findNextWorkday conv (t - j) hl = Some t")
    case yes: True
    with True have ex: "\<exists>k \<in> {j..7}.
                    shouldCreateSubstitute (getDay (t - k)) (holidaysOnDate conv (t - k) hl)
                    \<and> findNextWorkday conv (t - k) hl = Some t"
      by (intro bexI [of _ j]) simp_all
    have "lookBack conv t hl j = Some substituteInfo"
      using True chk yes by (subst lookBack.simps) simp
    with ex show ?thesis by simp
  next
    case no: False
    from Suc.prems have p1: "1 \<le> j + 1" by simp
    from Suc.hyps(2) have p2: "n = nat (8 - (j + 1))" by simp
    note ih = Suc.hyps(1) [OF p2 p1]
    have eq: "(\<exists>k \<in> {j..7}.
                    shouldCreateSubstitute (getDay (t - k)) (holidaysOnDate conv (t - k) hl)
                    \<and> findNextWorkday conv (t - k) hl = Some t)
          \<longleftrightarrow> (\<exists>k \<in> {j + 1..7}.
                    shouldCreateSubstitute (getDay (t - k)) (holidaysOnDate conv (t - k) hl)
                    \<and> findNextWorkday conv (t - k) hl = Some t)"
    proof
      assume "\<exists>k \<in> {j..7}.
                    shouldCreateSubstitute (getDay (t - k)) (holidaysOnDate conv (t - k) hl)
                    \<and> findNextWorkday conv (t - k) hl = Some t"
      then obtain k where k: "k \<in> {j..7}"
        "shouldCreateSubstitute (getDay (t - k)) (holidaysOnDate conv (t - k) hl)
                    \<and> findNextWorkday conv (t - k) hl = Some t"
        by blast
      with no have "k \<noteq> j" by blast
      with k(1) have "k \<in> {j + 1..7}" by simp
      with k(2) show "\<exists>k \<in> {j + 1..7}.
                    shouldCreateSubstitute (getDay (t - k)) (holidaysOnDate conv (t - k) hl)
                    \<and> findNextWorkday conv (t - k) hl = Some t"
        by blast
    next
      assume "\<exists>k \<in> {j + 1..7}.
                    shouldCreateSubstitute (getDay (t - k)) (holidaysOnDate conv (t - k) hl)
                    \<and> findNextWorkday conv (t - k) hl = Some t"
      then show "\<exists>k \<in> {j..7}.
                    shouldCreateSubstitute (getDay (t - k)) (holidaysOnDate conv (t - k) hl)
                    \<and> findNextWorkday conv (t - k) hl = Some t"
        by auto
    qed
    have "lookBack conv t hl j = lookBack conv t hl (j + 1)"
      using True chk no by (subst lookBack.simps) simp
    with ih eq show ?thesis by simp
  qed
qed

lemma getDay_range: "0 \<le> getDay x \<and> getDay x \<le> 6"
  by (simp add: getDay_def)

text \<open>
  The search as the code runs it. Let the day fall on Monday to Friday and let
  \<^verbatim>\<open>isDateHoliday\<close> reject it: the list has no entry on it other than Jeheonjeol, and
  it has no lunar holiday. Then \<^verbatim>\<open>getSubstituteHolidayInfo\<close>
  returns, and it returns the substitute holiday exactly when for some \<open>daysBack\<close> from 1
  to 7 the origin \<open>daysBack\<close> days earlier requires substitution and the next workday
  after the origin is the day; otherwise it returns the empty name and no type. For each
  origin the walk to the next workday ends, and it ends on the day exactly when every day
  strictly between the origin and the day is a Saturday, a Sunday or a holiday.
\<close>

theorem substitute_search:
  assumes "1 \<le> getDay (newDate y (m - 1) d)" and "getDay (newDate y (m - 1) d) \<le> 5"
      and "\<not> isDateHoliday conv (newDate y (m - 1) d) hl"
  shows "getSubstituteHolidayInfo conv y m d hl =
           Some (if \<exists>daysBack \<in> {1..7}.
                      shouldCreateSubstitute (getDay (newDate y (m - 1) d - daysBack))
                        (holidaysOnDate conv (newDate y (m - 1) d - daysBack) hl)
                      \<and> findNextWorkday conv (newDate y (m - 1) d - daysBack) hl
                          = Some (newDate y (m - 1) d)
                 then substituteInfo else noInfo)
         \<and> (\<forall>daysBack \<in> {1..7}.
               \<exists>w. findNextWorkday conv (newDate y (m - 1) d - daysBack) hl = Some w
                 \<and> (w = newDate y (m - 1) d \<longleftrightarrow>
                       (\<forall>x. newDate y (m - 1) d - daysBack < x \<and> x < newDate y (m - 1) d
                          \<longrightarrow> getDay x = 0 \<or> getDay x = 6 \<or> isDateHoliday conv x hl)))"
proof -
  from assms(1,2) have wd: "getDay (newDate y (m - 1) d) \<noteq> 0"
      "getDay (newDate y (m - 1) d) \<noteq> 6"
    by simp_all
  have one: "(1::int) \<le> 1" by simp
  from lookBack_result [OF wd assms(3) one] assms
  have "getSubstituteHolidayInfo conv y m d hl =
           Some (if \<exists>daysBack \<in> {1..7}.
                      shouldCreateSubstitute (getDay (newDate y (m - 1) d - daysBack))
                        (holidaysOnDate conv (newDate y (m - 1) d - daysBack) hl)
                      \<and> findNextWorkday conv (newDate y (m - 1) d - daysBack) hl
                          = Some (newDate y (m - 1) d)
                 then substituteInfo else noInfo)"
    by (simp add: getSubstituteHolidayInfo_def Let_def)
  moreover have "\<forall>daysBack \<in> {1..7}.
               \<exists>w. findNextWorkday conv (newDate y (m - 1) d - daysBack) hl = Some w
                 \<and> (w = newDate y (m - 1) d \<longleftrightarrow>
                       (\<forall>x. newDate y (m - 1) d - daysBack < x \<and> x < newDate y (m - 1) d
                          \<longrightarrow> getDay x = 0 \<or> getDay x = 6 \<or> isDateHoliday conv x hl))"
    using findNextWorkday_before [OF wd assms(3)] by simp
  ultimately show ?thesis by blast
qed

lemma getSubstituteHolidayInfo_returns:
  "getSubstituteHolidayInfo conv y m d hl = Some substituteInfo
   \<or> getSubstituteHolidayInfo conv y m d hl = Some noInfo"
proof (cases "getDay (newDate y (m - 1) d) < 1 \<or> getDay (newDate y (m - 1) d) > 5
              \<or> isDateHoliday conv (newDate y (m - 1) d) hl")
  case True
  then show ?thesis
    by (auto simp: getSubstituteHolidayInfo_def Let_def)
next
  case False
  then have wd: "getDay (newDate y (m - 1) d) \<noteq> 0" "getDay (newDate y (m - 1) d) \<noteq> 6"
     and nh: "\<not> isDateHoliday conv (newDate y (m - 1) d) hl"
    by auto
  have one: "(1::int) \<le> 1" by simp
  from lookBack_result [OF wd nh one] False show ?thesis
    by (simp add: getSubstituteHolidayInfo_def Let_def)
qed

lemma getSubstituteHolidayInfo_found:
  assumes "1 \<le> getDay (newDate y (m - 1) d)" and "getDay (newDate y (m - 1) d) \<le> 5"
      and "\<not> isDateHoliday conv (newDate y (m - 1) d) hl"
      and "k \<in> {1..7}"
      and "shouldCreateSubstitute (getDay (newDate y (m - 1) d - k))
             (holidaysOnDate conv (newDate y (m - 1) d - k) hl)"
      and "\<forall>x. newDate y (m - 1) d - k < x \<and> x < newDate y (m - 1) d
             \<longrightarrow> getDay x = 0 \<or> getDay x = 6 \<or> isDateHoliday conv x hl"
  shows "getSubstituteHolidayInfo conv y m d hl = Some substituteInfo"
proof -
  from assms(1,2) have wd: "getDay (newDate y (m - 1) d) \<noteq> 0"
      "getDay (newDate y (m - 1) d) \<noteq> 6"
    by simp_all
  from assms(4) have k1: "1 \<le> k" by simp
  from findNextWorkday_before [OF wd assms(3) k1] assms(6)
  have "findNextWorkday conv (newDate y (m - 1) d - k) hl = Some (newDate y (m - 1) d)"
    by auto
  with assms(4,5) have "\<exists>k \<in> {1..7}.
      shouldCreateSubstitute (getDay (newDate y (m - 1) d - k))
        (holidaysOnDate conv (newDate y (m - 1) d - k) hl)
      \<and> findNextWorkday conv (newDate y (m - 1) d - k) hl = Some (newDate y (m - 1) d)"
    by blast
  moreover have one: "(1::int) \<le> 1" by simp
  ultimately show ?thesis
    using lookBack_result [OF wd assms(3) one] assms(1-3)
    by (simp add: getSubstituteHolidayInfo_def Let_def)
qed

lemma liberation2026_monday: "\<not> isDateHoliday convFails 20682 liberation2026"
  by (simp add: isDateHoliday_def getLunarHolidayInfo_def convFails_def noInfo_def
        liberation2026_def day_2026_08_15)

text \<open>
  Monday 17 August 2026: the origin two days back is the Saturday of Gwangbokjeol, and the
  Sunday between is skipped.
\<close>

theorem substitute_search_witness:
  "1 \<le> getDay (newDate 2026 (8 - 1) 17) \<and> getDay (newDate 2026 (8 - 1) 17) \<le> 5
   \<and> \<not> isDateHoliday convFails (newDate 2026 (8 - 1) 17) liberation2026
   \<and> getSubstituteHolidayInfo convFails 2026 8 17 liberation2026 = Some substituteInfo"
proof -
  have t: "newDate 2026 (8 - 1) 17 = 20682"
    by (simp add: newDate_def dayFromYear_def daysBeforeMonth_def inLeapYear_def Let_def)
  have h1: "1 \<le> getDay (newDate 2026 (8 - 1) 17)"
    and h2: "getDay (newDate 2026 (8 - 1) 17) \<le> 5"
    unfolding t by (simp_all add: getDay_def)
  have h3: "\<not> isDateHoliday convFails (newDate 2026 (8 - 1) 17) liberation2026"
    unfolding t by (rule liberation2026_monday)
  note main = substitute_search [OF h1 h2 h3, unfolded t]
  have two: "(2::int) \<in> {1..7}" by simp
  from bspec [OF conjunct2 [OF main] two]
  have "\<exists>w. findNextWorkday convFails 20680 liberation2026 = Some w
                 \<and> (w = 20682 \<longleftrightarrow>
                       (\<forall>x. 20680 < x \<and> x < 20682
                          \<longrightarrow> getDay x = 0 \<or> getDay x = 6
                               \<or> isDateHoliday convFails x liberation2026))"
    by simp
  moreover have "\<forall>x::int. 20680 < x \<and> x < 20682
                   \<longrightarrow> getDay x = 0 \<or> getDay x = 6
                        \<or> isDateHoliday convFails x liberation2026"
  proof (intro allI impI)
    fix x :: int assume "20680 < x \<and> x < 20682"
    then have "x = 20681" by simp
    then show "getDay x = 0 \<or> getDay x = 6 \<or> isDateHoliday convFails x liberation2026"
      by (simp add: getDay_def)
  qed
  ultimately have nw: "findNextWorkday convFails 20680 liberation2026 = Some 20682"
    by auto
  have req: "shouldCreateSubstitute (getDay 20680)
               (holidaysOnDate convFails 20680 liberation2026)"
    by (simp add: liberation2026_on_date shouldCreateSubstitute_def createsSubstitute_def
          getDay_def)
  have "\<exists>daysBack \<in> {1..7}.
           shouldCreateSubstitute (getDay (20682 - daysBack))
             (holidaysOnDate convFails (20682 - daysBack) liberation2026)
           \<and> findNextWorkday convFails (20682 - daysBack) liberation2026 = Some 20682"
    using req nw by (intro bexI [of _ 2]) simp_all
  with conjunct1 [OF main]
  have "getSubstituteHolidayInfo convFails 2026 8 17 liberation2026 = Some substituteInfo"
    by simp
  with h1 h2 h3 show ?thesis by simp
qed

subsection \<open>The aggregate classification\<close>

lemma entryType_not_NoType: "entryType h \<noteq> NoType"
  by (simp add: entryType_def)

lemma remdups_append_dup: "x \<in> set bs \<Longrightarrow> remdups (as @ x # bs) = remdups (as @ bs)"
  by (induction as) auto

lemma distinct_setAdd: "distinct u \<Longrightarrow> distinct (setAdd x u)"
  by (simp add: setAdd_def)

lemma foldl_setAdd:
  "distinct u \<Longrightarrow> foldl (\<lambda>s x. setAdd x s) u xs = rev (remdups (rev xs @ rev u))"
proof (induction xs arbitrary: u)
  case Nil
  then show ?case by (simp add: distinct_remdups_id)
next
  case (Cons x xs)
  from Cons.prems have "distinct (setAdd x u)" by (rule distinct_setAdd)
  from Cons.IH [OF this] show ?case
    by (auto simp: setAdd_def remdups_append_dup)
qed

lemma foldl_setAdd_empty: "foldl (\<lambda>s x. setAdd x s) [] xs = insertionOrder xs"
  by (simp add: foldl_setAdd insertionOrder_def)

lemma collectListed_step:
  "collectListed conv y m d (newDate y (m - 1) d) (h # hs) (u, p) =
     (if contributes conv y m d h
      then collectListed conv y m d (newDate y (m - 1) d) hs
             (setAdd (hname h) u, if p = NoType then entryType h else p)
      else collectListed conv y m d (newDate y (m - 1) d) hs (u, p))"
  by (auto simp: contributes_def)

lemma collectListed_eq:
  "collectListed conv y m d (newDate y (m - 1) d) hl (u, p) =
     (foldl (\<lambda>s x. setAdd x s) u (map hname (filter (contributes conv y m d) hl)),
      if p = NoType
      then (case filter (contributes conv y m d) hl of [] \<Rightarrow> NoType | h # hs \<Rightarrow> entryType h)
      else p)"
proof (induction hl arbitrary: u p)
  case Nil
  then show ?case by simp
next
  case (Cons h hl)
  show ?case
    unfolding collectListed_step
    by (simp add: Cons.IH entryType_not_NoType)
qed

lemma insertionOrder_Nil_iff: "insertionOrder xs = [] \<longleftrightarrow> xs = []"
  by (simp add: insertionOrder_def)

lemma set_insertionOrder: "set (insertionOrder xs) = set xs"
  by (simp add: insertionOrder_def)

lemma hd_foldl_setAdd: "u \<noteq> [] \<Longrightarrow> hd (foldl (\<lambda>s x. setAdd x s) u xs) = hd u"
  by (induction xs arbitrary: u) (auto simp: setAdd_def)

lemma foldl_setAdd_nonempty: "u \<noteq> [] \<Longrightarrow> foldl (\<lambda>s x. setAdd x s) u xs \<noteq> []"
  by (induction xs arbitrary: u) (auto simp: setAdd_def)

lemma firstName_insertionOrder: "firstName (insertionOrder (x # xs)) = x"
proof -
  have "insertionOrder (x # xs) = foldl (\<lambda>s x. setAdd x s) [x] xs"
    by (simp add: foldl_setAdd_empty [symmetric] setAdd_def)
  moreover have "hd (foldl (\<lambda>s x. setAdd x s) [x] xs) = x"
    by (simp add: hd_foldl_setAdd)
  moreover have "foldl (\<lambda>s x. setAdd x s) [x] xs \<noteq> []"
    by (simp add: foldl_setAdd_nonempty)
  ultimately have "\<exists>ns. insertionOrder (x # xs) = x # ns"
    by (cases "foldl (\<lambda>s x. setAdd x s) [x] xs") auto
  then show ?thesis
    by (auto simp: firstName_def)
qed

lemma lunar_name_cases:
  "getLunarHolidayInfo conv y m d = noInfo
   \<or> getLunarHolidayInfo conv y m d = \<lparr>iname = seollal, itype = LunarNewYear\<rparr>
   \<or> getLunarHolidayInfo conv y m d = \<lparr>iname = seollal_yeonhyu, itype = LunarNewYear\<rparr>
   \<or> getLunarHolidayInfo conv y m d = \<lparr>iname = chuseok, itype = Chuseok\<rparr>
   \<or> getLunarHolidayInfo conv y m d = \<lparr>iname = chuseok_yeonhyu, itype = Chuseok\<rparr>"
  by (simp add: getLunarHolidayInfo_def split: option.splits)

lemma lunar_name_family:
  "iname (getLunarHolidayInfo conv y m d) \<noteq> [] \<Longrightarrow>
     str_includes (iname (getLunarHolidayInfo conv y m d)) seollal
     \<or> str_includes (iname (getLunarHolidayInfo conv y m d)) chuseok"
  using lunar_name_cases [of conv y m d]
  by (auto simp: noInfo_def seollal_def seollal_yeonhyu_def chuseok_def chuseok_yeonhyu_def)

lemma self_similar:
  "str_includes n seollal \<or> str_includes n chuseok \<Longrightarrow> n \<in> set ns
   \<Longrightarrow> hasSimilarHoliday ns n"
  by (auto simp: hasSimilarHoliday_def list_ex_iff)


lemma classifyWith_seed:
  assumes "filter (contributes conv y m d) hl = h # rest"
  shows "classifyWith conv hl y m d =
           Some \<lparr>cname = hname h,
                 cnames = insertionOrder (map hname (h # rest))
                   @ (if iname (getLunarHolidayInfo conv y m d) \<noteq> []
                         \<and> \<not> hasSimilarHoliday (insertionOrder (map hname (h # rest)))
                                (iname (getLunarHolidayInfo conv y m d))
                      then [iname (getLunarHolidayInfo conv y m d)] else []),
                 ctype = entryType h\<rparr>"
proof -
  let ?names = "insertionOrder (hname h # map hname rest)"
  let ?lunar = "getLunarHolidayInfo conv y m d"
  have st1: "collectListed conv y m d (newDate y (m - 1) d) hl ([], NoType)
               = (?names, entryType h)"
    by (simp add: collectListed_eq assms foldl_setAdd_empty [symmetric])
  have ne: "?names \<noteq> []"
    by (simp add: insertionOrder_Nil_iff)
  have fn: "firstName ?names = hname h"
    using firstName_insertionOrder [of "hname h" "map hname rest"] by simp
  have ne2: "setAdd x ?names \<noteq> []" for x
    using ne by (simp add: setAdd_def)
  have fn2: "firstName (?names @ [x]) = hname h" for x
    using fn ne by (cases ?names) (simp_all add: firstName_def)
  show ?thesis
  proof (cases "iname ?lunar \<noteq> [] \<and> \<not> hasSimilarHoliday ?names (iname ?lunar)")
    case True
    with lunar_name_family [of conv y m d] self_similar [of "iname ?lunar" ?names]
    have "iname ?lunar \<notin> set ?names" by blast
    with True ne show ?thesis
      by (simp add: classifyWith_def Let_def st1 addLunar_def result_def setAdd_def
            entryType_not_NoType fn2)
  next
    case False
    with ne show ?thesis
      by (auto simp: classifyWith_def Let_def st1 addLunar_def result_def fn)
  qed
qed

lemma classifyWith_lunar:
  assumes "filter (contributes conv y m d) hl = []"
      and "iname (getLunarHolidayInfo conv y m d) \<noteq> []"
  shows "classifyWith conv hl y m d =
           Some \<lparr>cname = iname (getLunarHolidayInfo conv y m d),
                 cnames = [iname (getLunarHolidayInfo conv y m d)],
                 ctype = itype (getLunarHolidayInfo conv y m d)\<rparr>"
proof -
  have st1: "collectListed conv y m d (newDate y (m - 1) d) hl ([], NoType) = ([], NoType)"
    by (simp add: collectListed_eq assms(1))
  from assms(2) show ?thesis
    by (simp add: classifyWith_def Let_def st1 addLunar_def result_def setAdd_def
          hasSimilarHoliday_def firstName_def)
qed

lemma classifyWith_engine:
  assumes "filter (contributes conv y m d) hl = []"
      and "iname (getLunarHolidayInfo conv y m d) = []"
  shows "classifyWith conv hl y m d =
           Some (if getSubstituteHolidayInfo conv y m d hl = Some substituteInfo
                 then \<lparr>cname = daeche_gonghyuil, cnames = [daeche_gonghyuil],
                       ctype = Substitute\<rparr>
                 else \<lparr>cname = [], cnames = [], ctype = NoType\<rparr>)"
proof -
  have st1: "collectListed conv y m d (newDate y (m - 1) d) hl ([], NoType) = ([], NoType)"
    by (simp add: collectListed_eq assms(1))
  have ne: "daeche_gonghyuil \<noteq> []"
    by (simp add: daeche_gonghyuil_def)
  from getSubstituteHolidayInfo_returns [of conv y m d hl] assms(2) ne show ?thesis
    by (auto simp: classifyWith_def Let_def st1 addLunar_def result_def setAdd_def
          firstName_def substituteInfo_def noInfo_def)
qed

lemma classifyWith_returns: "\<exists>c. classifyWith conv hl y m d = Some c"
proof (cases "filter (contributes conv y m d) hl")
  case Nil
  then show ?thesis
    using classifyWith_lunar [of conv y m d hl] classifyWith_engine [of conv y m d hl]
    by (cases "iname (getLunarHolidayInfo conv y m d) = []") auto
next
  case (Cons h rest)
  then show ?thesis
    using classifyWith_seed [of conv y m d hl h rest] by simp
qed

lemma getAllHolidayInfo_eq:
  "getAllHolidayInfo holidays conv cache y m d =
     map_option (\<lambda>c. (c, snd (cachedHolidays holidays cache y)))
       (classifyWith conv (fst (cachedHolidays holidays cache y)) y m d)"
  by (simp add: getAllHolidayInfo_def split: prod.splits option.splits)

lemma classifyWith_cname:
  "classifyWith conv hl y m d = Some c \<Longrightarrow> cname c = firstName (cnames c)"
  by (auto simp: classifyWith_def Let_def result_def split: option.splits if_splits)

lemma firstName_cases: "firstName ns = [] \<or> firstName ns \<in> set ns"
  by (cases ns) (simp_all add: firstName_def)

lemma cnames_origin:
  assumes "classifyWith conv hl y m d = Some c" and "n \<in> set (cnames c)"
  shows "(\<exists>h \<in> set hl. contributes conv y m d h \<and> n = hname h)
         \<or> (n = iname (getLunarHolidayInfo conv y m d) \<and> n \<noteq> [])
         \<or> n = daeche_gonghyuil"
proof (cases "filter (contributes conv y m d) hl")
  case Nil
  show ?thesis
  proof (cases "iname (getLunarHolidayInfo conv y m d) = []")
    case True
    from classifyWith_engine [OF Nil True] assms show ?thesis
      by (auto split: if_splits)
  next
    case False
    from classifyWith_lunar [OF Nil False] assms False show ?thesis
      by auto
  qed
next
  case (Cons h rest)
  have "set (map hname (h # rest)) = hname ` set (filter (contributes conv y m d) hl)"
    by (simp add: Cons)
  then have sub: "x \<in> set (insertionOrder (map hname (h # rest)))
             \<Longrightarrow> \<exists>k \<in> set hl. contributes conv y m d k \<and> x = hname k" for x
    unfolding set_insertionOrder by auto
  from classifyWith_seed [OF Cons] assms have
    "n \<in> set (insertionOrder (map hname (h # rest)))
     \<or> (n = iname (getLunarHolidayInfo conv y m d) \<and> n \<noteq> [])"
    by (auto split: if_splits)
  with sub show ?thesis by blast
qed

lemma listedHoliday_iff:
  "listedHoliday t hl \<longleftrightarrow>
     (\<exists>h \<in> set hl. hdate h = t \<and> \<not> str_includes (hname h) jeheonjeol)"
  by (induction hl) auto

lemma listedHoliday_filter:
  "listedHoliday t (filter (\<lambda>h. \<not> str_includes (hname h) jeheonjeol) hl) = listedHoliday t hl"
  by (induction hl) auto

lemma listedOnDate_filter:
  "listedOnDate t (filter (\<lambda>h. \<not> str_includes (hname h) jeheonjeol) hl) = listedOnDate t hl"
  by (induction hl) auto

lemma listedOnDate_names:
  "h \<in> set (listedOnDate t hl) \<Longrightarrow> \<not> str_includes (tname h) jeheonjeol"
  by (induction hl) (auto split: if_splits)

lemma lunar_not_jeheonjeol:
  "\<not> str_includes (iname (getLunarHolidayInfo conv y m d)) jeheonjeol"
  using lunar_name_cases [of conv y m d]
  by (auto simp: noInfo_def seollal_def seollal_yeonhyu_def chuseok_def chuseok_yeonhyu_def
        jeheonjeol_def)

lemma daeche_not_jeheonjeol: "\<not> str_includes daeche_gonghyuil jeheonjeol"
  by (simp add: daeche_gonghyuil_def jeheonjeol_def)

lemma daeche_not_chuseok: "\<not> str_includes daeche_gonghyuil chuseok"
  by (simp add: daeche_gonghyuil_def chuseok_def)

lemma engine_substitute_only:
  "getSubstituteHolidayInfo conv y m d hl = Some substituteInfo \<Longrightarrow>
     1 \<le> getDay (newDate y (m - 1) d) \<and> getDay (newDate y (m - 1) d) \<le> 5
     \<and> \<not> isDateHoliday conv (newDate y (m - 1) d) hl"
  by (auto simp: getSubstituteHolidayInfo_def Let_def substituteInfo_def noInfo_def
        split: if_splits)

lemma entryType_Substitute: "entryType h = Substitute \<longleftrightarrow> substitute h"
  by (simp add: entryType_def)

lemma lunar_type_not_Substitute: "itype (getLunarHolidayInfo conv y m d) \<noteq> Substitute"
  using lunar_name_cases [of conv y m d] by (auto simp: noInfo_def)

subsection \<open>Properties of the classification\<close>

lemma getAllHolidayInfo_returns:
  "\<exists>c. getAllHolidayInfo holidays conv cache y m d
          = Some (c, snd (cachedHolidays holidays cache y))"
  using classifyWith_returns [of conv "fst (cachedHolidays holidays cache y)" y m d]
  by (auto simp: getAllHolidayInfo_eq)

lemma cachedHolidays_stored:
  "snd (cachedHolidays holidays cache y) y = Some (fst (cachedHolidays holidays cache y))"
  by (simp add: cachedHolidays_def split: option.splits)

lemma cachedHolidays_cacheOf:
  "cacheOf holidays cache \<Longrightarrow> fst (cachedHolidays holidays cache y) = holidays y"
  by (auto simp: cachedHolidays_def cacheOf_def split: option.splits)

lemma cachedHolidays_keeps_cacheOf:
  "cacheOf holidays cache \<Longrightarrow> cacheOf holidays (snd (cachedHolidays holidays cache y))"
  by (auto simp: cachedHolidays_def cacheOf_def split: option.splits)

text \<open>
  Claim C4, as amended. \<^verbatim>\<open>getAllHolidayInfo\<close> always returns, and composes its
  sources in this order. The contributing entries are those of the year's list on the day,
  without Jeheonjeol and without a Chuseok entry on the 14th to 16th of the ninth lunar
  month. If there is one, the names are theirs in insertion order without duplicates, the
  first name is that of the first contributing entry, and the type comes from that entry:
  Substitute if it is flagged, else LunarNewYear if its name contains Seollal or Sinjeong,
  else Chuseok if its name contains Chuseok, else Normal; the lunar name is appended only
  when it is not empty and no name already present is similar to it. If there is none and
  the lunar name is not empty, that name is the only one and the type is the lunar type.
  Only when both are empty is \<^verbatim>\<open>getSubstituteHolidayInfo\<close> asked: if it answers the
  substitute holiday, that is the only name and the type is Substitute; otherwise there is
  no name and no type.
\<close>

theorem classify_composition:
  "map_option fst (getAllHolidayInfo holidays conv cache y m d) =
     Some (let hl = fst (cachedHolidays holidays cache y);
               seed = filter (contributes conv y m d) hl;
               seedNames = insertionOrder (map hname seed);
               lunar = getLunarHolidayInfo conv y m d
           in if seed \<noteq> []
              then \<lparr>cname = hname (hd seed),
                    cnames = seedNames
                      @ (if iname lunar \<noteq> [] \<and> \<not> hasSimilarHoliday seedNames (iname lunar)
                         then [iname lunar] else []),
                    ctype =
                      (if substitute (hd seed) then Substitute
                       else if str_includes (hname (hd seed)) seollal
                               \<or> str_includes (hname (hd seed)) sinjeong
                       then LunarNewYear
                       else if str_includes (hname (hd seed)) chuseok then Chuseok
                       else Normal)\<rparr>
              else if iname lunar \<noteq> []
              then \<lparr>cname = iname lunar, cnames = [iname lunar], ctype = itype lunar\<rparr>
              else if getSubstituteHolidayInfo conv y m d hl = Some substituteInfo
              then \<lparr>cname = daeche_gonghyuil, cnames = [daeche_gonghyuil],
                    ctype = Substitute\<rparr>
              else \<lparr>cname = [], cnames = [], ctype = NoType\<rparr>)"
proof (cases "filter (contributes conv y m d) (fst (cachedHolidays holidays cache y))")
  case Nil
  show ?thesis
  proof (cases "iname (getLunarHolidayInfo conv y m d) = []")
    case True
    from classifyWith_engine [OF Nil True] Nil True show ?thesis
      by (simp add: getAllHolidayInfo_eq option.map_comp comp_def Let_def)
  next
    case False
    from classifyWith_lunar [OF Nil False] Nil False show ?thesis
      by (simp add: getAllHolidayInfo_eq option.map_comp comp_def Let_def)
  qed
next
  case (Cons h rest)
  from classifyWith_seed [OF Cons] Cons show ?thesis
    by (simp add: getAllHolidayInfo_eq option.map_comp comp_def Let_def entryType_def)
qed

text \<open>
  Claim C3, as amended. If the classification of a day has type Substitute and the first
  contributing entry of the day, if there is one, is not flagged as a substitute by the
  source, then the day falls on Monday to Friday, every entry of the year's list on that
  day is Jeheonjeol, and the day carries no lunar holiday.
\<close>

theorem substitute_type_means_workday:
  assumes "getAllHolidayInfo holidays conv cache y m d = Some (c, cache')"
      and "ctype c = Substitute"
      and "case filter (contributes conv y m d) (fst (cachedHolidays holidays cache y)) of
             [] \<Rightarrow> True | h # rest \<Rightarrow> \<not> substitute h"
  shows "1 \<le> getDay (newDate y (m - 1) d) \<and> getDay (newDate y (m - 1) d) \<le> 5
         \<and> (\<forall>h \<in> set (fst (cachedHolidays holidays cache y)).
               hdate h = newDate y (m - 1) d \<longrightarrow> str_includes (hname h) jeheonjeol)
         \<and> iname (getLunarHolidayInfo conv (getFullYear (newDate y (m - 1) d))
                    (getMonth (newDate y (m - 1) d) + 1) (getDate (newDate y (m - 1) d))) = []
         \<and> iname (getLunarHolidayInfo conv y m d) = []"
proof -
  let ?hl = "fst (cachedHolidays holidays cache y)"
  from assms(1) have cw: "classifyWith conv ?hl y m d = Some c"
    by (auto simp: getAllHolidayInfo_eq)
  have engine: "filter (contributes conv y m d) ?hl = []
                \<and> iname (getLunarHolidayInfo conv y m d) = []
                \<and> getSubstituteHolidayInfo conv y m d ?hl = Some substituteInfo"
  proof (cases "filter (contributes conv y m d) ?hl")
    case Nil
    show ?thesis
    proof (cases "iname (getLunarHolidayInfo conv y m d) = []")
      case True
      from classifyWith_engine [OF Nil True] cw assms(2) Nil True show ?thesis
        by (auto split: if_splits)
    next
      case False
      from classifyWith_lunar [OF Nil False] cw assms(2)
        lunar_type_not_Substitute [of conv y m d]
      show ?thesis by auto
    qed
  next
    case (Cons h rest)
    from classifyWith_seed [OF Cons] cw assms(2) have "entryType h = Substitute"
      by auto
    with assms(3) Cons show ?thesis
      by (simp add: entryType_Substitute)
  qed
  from engine_substitute_only [of conv y m d ?hl] engine
  have wd: "1 \<le> getDay (newDate y (m - 1) d) \<and> getDay (newDate y (m - 1) d) \<le> 5"
    and nh: "\<not> isDateHoliday conv (newDate y (m - 1) d) ?hl"
    by simp_all
  from nh have "\<not> listedHoliday (newDate y (m - 1) d) ?hl"
    and "iname (getLunarHolidayInfo conv (getFullYear (newDate y (m - 1) d))
                    (getMonth (newDate y (m - 1) d) + 1) (getDate (newDate y (m - 1) d))) = []"
    by (auto simp: isDateHoliday_def split: if_splits)
  with wd engine show ?thesis
    by (auto simp: listedHoliday_iff)
qed

lemma ninth_month_lunar_name:
  assumes "conv y m d = Some l" and "lunarMonth l = 9"
  shows "\<not> str_includes (iname (getLunarHolidayInfo conv y m d)) chuseok"
  using assms
  by (simp add: getLunarHolidayInfo_def noInfo_def seollal_yeonhyu_def chuseok_def)

text \<open>
  Claim C5, as amended. If the requested date converts to the 14th, 15th or 16th of the ninth
  lunar month, the classification returns and no name in it contains Chuseok: every entry
  of that day named after Chuseok is dropped from the names of the classification.
\<close>

theorem ninth_month_chuseok_dropped:
  assumes "conv y m d = Some l" and "lunarMonth l = 9"
      and "lunarDay l = 14 \<or> lunarDay l = 15 \<or> lunarDay l = 16"
  shows "\<exists>c cache'. getAllHolidayInfo holidays conv cache y m d = Some (c, cache')
           \<and> (\<forall>n \<in> set (cnames c). \<not> str_includes n chuseok)
           \<and> \<not> str_includes (cname c) chuseok"
proof -
  let ?hl = "fst (cachedHolidays holidays cache y)"
  from getAllHolidayInfo_returns [of holidays conv cache y m d] obtain c where
    c: "getAllHolidayInfo holidays conv cache y m d
          = Some (c, snd (cachedHolidays holidays cache y))"
    by blast
  then have cw: "classifyWith conv ?hl y m d = Some c"
    by (auto simp: getAllHolidayInfo_eq)
  from assms have ninth: "ninthMonthChuseok conv y m d"
    by (simp add: ninthMonthChuseok_def)
  have names: "\<not> str_includes n chuseok" if "n \<in> set (cnames c)" for n
    using cnames_origin [OF cw that] ninth ninth_month_lunar_name [of conv y m d l, OF assms(1,2)]
      daeche_not_chuseok
    by (auto simp: contributes_def)
  moreover have "\<not> str_includes (cname c) chuseok"
    using firstName_cases [of "cnames c"] classifyWith_cname [OF cw] names
    by (auto simp: chuseok_def)
  ultimately show ?thesis using c by blast
qed

text \<open>
  Claim C6. Jeheonjeol is never present: the classification returns, no name in it and not
  its first name contains Jeheonjeol; \<^verbatim>\<open>isDateHoliday\<close> gives the same answer on the
  list with all Jeheonjeol entries removed; and the holidays that
  \<^verbatim>\<open>checkForSubstituteHoliday\<close> collects at an origin are the same on that list, none
  of them containing Jeheonjeol.
\<close>

theorem jeheonjeol_never_counted:
  "(\<exists>c cache'. getAllHolidayInfo holidays conv cache y m d = Some (c, cache')
      \<and> (\<forall>n \<in> set (cnames c). \<not> str_includes n jeheonjeol)
      \<and> \<not> str_includes (cname c) jeheonjeol)
   \<and> isDateHoliday conv t hl
       = isDateHoliday conv t (filter (\<lambda>h. \<not> str_includes (hname h) jeheonjeol) hl)
   \<and> holidaysOnDate conv t hl
       = holidaysOnDate conv t (filter (\<lambda>h. \<not> str_includes (hname h) jeheonjeol) hl)
   \<and> (\<forall>h \<in> set (holidaysOnDate conv t hl). \<not> str_includes (tname h) jeheonjeol)"
proof -
  let ?hl = "fst (cachedHolidays holidays cache y)"
  from getAllHolidayInfo_returns [of holidays conv cache y m d] obtain c where
    c: "getAllHolidayInfo holidays conv cache y m d
          = Some (c, snd (cachedHolidays holidays cache y))"
    by blast
  then have cw: "classifyWith conv ?hl y m d = Some c"
    by (auto simp: getAllHolidayInfo_eq)
  have names: "\<not> str_includes n jeheonjeol" if "n \<in> set (cnames c)" for n
    using cnames_origin [OF cw that] lunar_not_jeheonjeol [of conv y m d]
      daeche_not_jeheonjeol
    by (auto simp: contributes_def)
  moreover have "\<not> str_includes (cname c) jeheonjeol"
    using firstName_cases [of "cnames c"] classifyWith_cname [OF cw] names
    by (auto simp: jeheonjeol_def)
  ultimately have first: "\<exists>c cache'. getAllHolidayInfo holidays conv cache y m d
      = Some (c, cache')
      \<and> (\<forall>n \<in> set (cnames c). \<not> str_includes n jeheonjeol)
      \<and> \<not> str_includes (cname c) jeheonjeol"
    using c by blast
  have second: "isDateHoliday conv t hl
       = isDateHoliday conv t (filter (\<lambda>h. \<not> str_includes (hname h) jeheonjeol) hl)"
    by (simp add: isDateHoliday_def listedHoliday_filter)
  have third: "holidaysOnDate conv t hl
       = holidaysOnDate conv t (filter (\<lambda>h. \<not> str_includes (hname h) jeheonjeol) hl)"
    by (simp add: holidaysOnDate_def listedOnDate_filter)
  have fourth: "\<forall>h \<in> set (holidaysOnDate conv t hl). \<not> str_includes (tname h) jeheonjeol"
    using lunar_not_jeheonjeol [of conv "getFullYear t" "getMonth t + 1" "getDate t"]
    by (auto simp: holidaysOnDate_def Let_def listedOnDate_names split: if_splits)
  from first second third fourth show ?thesis by blast
qed

lemma contributes_rollover:
  "newDate y (m - 1) d = newDate y (m' - 1) d' \<Longrightarrow> conv y m d = conv y m' d'
   \<Longrightarrow> contributes conv y m d = contributes conv y m' d'"
  by (rule ext) (simp add: contributes_def ninthMonthChuseok_def)

lemma lunar_rollover:
  assumes "newDate y (m - 1) d = newDate y (m' - 1) d'" and "conv y m d = conv y m' d'"
  shows "getLunarHolidayInfo conv y m d = getLunarHolidayInfo conv y m' d'"
  unfolding getLunarHolidayInfo_def newDate_succ newDate_pred assms by (rule refl)

lemma engine_rollover:
  "newDate y (m - 1) d = newDate y (m' - 1) d'
   \<Longrightarrow> getSubstituteHolidayInfo conv y m d hl = getSubstituteHolidayInfo conv y m' d' hl"
  by (simp add: getSubstituteHolidayInfo_def)

lemma classifyWith_rollover:
  assumes "newDate y (m - 1) d = newDate y (m' - 1) d'" and "conv y m d = conv y m' d'"
  shows "classifyWith conv hl y m d = classifyWith conv hl y m' d'"
proof -
  have st: "collectListed conv y m d (newDate y (m - 1) d) hl ([], NoType)
          = collectListed conv y m' d' (newDate y (m' - 1) d') hl ([], NoType)"
    by (simp add: collectListed_eq contributes_rollover [of y m d m' d' conv, OF assms])
  show ?thesis
    unfolding classifyWith_def Let_def st lunar_rollover [of y m d m' d' conv, OF assms]
      engine_rollover [OF assms(1), of conv hl]
    by (rule refl)
qed

text \<open>
  Claim C9, as amended. No date is rejected. For every triple of integers
  \<^verbatim>\<open>getAllHolidayInfo\<close> returns a classification, after the list of the year has been
  read and stored in the cache; two triples of the same year that the \<^verbatim>\<open>Date\<close>
  constructor sends to the same day, and on which the converter answers alike, get the same
  result; and \<^verbatim>\<open>getLunarDate\<close>, on a cache miss, hands the triple to the converter and
  returns and stores the empty string when the converter fails on it.
\<close>

theorem no_date_validation:
  "(\<exists>c. getAllHolidayInfo holidays conv cache y m d
           = Some (c, snd (cachedHolidays holidays cache y)))
   \<and> snd (cachedHolidays holidays cache y) y = Some (fst (cachedHolidays holidays cache y))
   \<and> (newDate y (m - 1) d = newDate y (m' - 1) d' \<and> conv y m d = conv y m' d'
        \<longrightarrow> getAllHolidayInfo holidays conv cache y m d
              = getAllHolidayInfo holidays conv cache y m' d')
   \<and> (lcache (y, m, d) = None \<and> conv y m d = None
        \<longrightarrow> getLunarDate conv lcache y m d = ([], lcache((y, m, d) \<mapsto> [])))"
  using getAllHolidayInfo_returns [of holidays conv cache y m d]
    classifyWith_rollover [of y m d m' d' conv "fst (cachedHolidays holidays cache y)"]
  by (auto simp: cachedHolidays_stored getLunarDate_def computeLunarDate_def
        getAllHolidayInfo_eq)

text \<open>
  Claim C10. Take two runs, each with a cache filled from its own source, whose sources give
  the same list for year \<open>y\<close>. Then every date requested with year \<open>y\<close> gets the same
  classification in both, whatever the sources give for other years; and the classification
  is returned.
\<close>

theorem other_years_irrelevant:
  assumes "cacheOf holidays1 cache1" and "cacheOf holidays2 cache2"
      and "holidays1 y = holidays2 y"
  shows "map_option fst (getAllHolidayInfo holidays1 conv cache1 y m d)
           = map_option fst (getAllHolidayInfo holidays2 conv cache2 y m d)
         \<and> (\<exists>c. map_option fst (getAllHolidayInfo holidays1 conv cache1 y m d) = Some c)"
proof -
  from assms have "fst (cachedHolidays holidays1 cache1 y)
                     = fst (cachedHolidays holidays2 cache2 y)"
    by (simp add: cachedHolidays_cacheOf)
  then have "map_option fst (getAllHolidayInfo holidays1 conv cache1 y m d)
           = map_option fst (getAllHolidayInfo holidays2 conv cache2 y m d)"
    by (simp add: getAllHolidayInfo_eq option.map_comp comp_def)
  moreover from getAllHolidayInfo_returns [of holidays1 conv cache1 y m d]
  have "\<exists>c. map_option fst (getAllHolidayInfo holidays1 conv cache1 y m d) = Some c"
    by auto
  ultimately show ?thesis by blast
qed

subsection \<open>Evaluations on sample data\<close>

lemmas date_eval = newDate_def dayFromYear_def daysBeforeMonth_def inLeapYear_def Let_def

lemmas name_eval = jeheonjeol_def chuseok_def seollal_def sinjeong_def daeche_gonghyuil_def

lemma convFails_lunar: "getLunarHolidayInfo convFails y m d = noInfo"
  by (simp add: getLunarHolidayInfo_def convFails_def)

lemma convMonth_lunar:
  "lm \<noteq> 1 \<Longrightarrow> lm \<noteq> 8 \<Longrightarrow> getLunarHolidayInfo (convMonth lm) y m d = noInfo"
  by (simp add: getLunarHolidayInfo_def convMonth_def probeNewYear_def solarToLunar_def)

lemma noCache_holidays: "cachedHolidays holidays noCache y = (holidays y, noCache(y \<mapsto> holidays y))"
  by (simp add: cachedHolidays_def noCache_def)

lemma empty_holidays:
  "cachedHolidays holidays Map.empty y = (holidays y, Map.empty(y \<mapsto> holidays y))"
  by (simp add: cachedHolidays_def)

text \<open>
  Against claim C4 as stated: the unflagged entry Sinjeong of 1 January 2024 contains neither
  Seollal nor Chuseok, and the type of the day is LunarNewYear, not Normal.
\<close>

theorem new_years_day_type_counterexample:
  "getAllHolidayInfo newYear2024 convFails noCache 2024 1 1
     = Some (\<lparr>cname = sinjeong, cnames = [sinjeong], ctype = LunarNewYear\<rparr>,
             noCache(2024 \<mapsto> newYear2024 2024))
   \<and> \<not> str_includes sinjeong seollal \<and> \<not> str_includes sinjeong chuseok"
proof -
  have seed: "filter (contributes convFails 2024 1 1) (newYear2024 2024)
                = [\<lparr>hdate = newDate 2024 0 1, hname = sinjeong, substitute = False\<rparr>]"
    by (simp add: newYear2024_def contributes_def ninthMonthChuseok_def convFails_def
          name_eval)
  have ty: "entryType \<lparr>hdate = newDate 2024 0 1, hname = sinjeong, substitute = False\<rparr>
              = LunarNewYear"
    by (simp add: entryType_def name_eval)
  from classifyWith_seed [OF seed] ty show ?thesis
    by (simp add: getAllHolidayInfo_eq noCache_holidays convFails_lunar noInfo_def
          insertionOrder_def name_eval)
qed

text \<open>
  Against claim C3 as stated: Monday 6 May 2024 is listed by the source, flagged as a
  substitute, and its type is Substitute.
\<close>

theorem flagged_substitute_counterexample:
  "getAllHolidayInfo flagged2024 convFails noCache 2024 5 6
     = Some (\<lparr>cname = daeche_gonghyuil, cnames = [daeche_gonghyuil], ctype = Substitute\<rparr>,
             noCache(2024 \<mapsto> flagged2024 2024))
   \<and> listedHoliday (newDate 2024 (5 - 1) 6) (flagged2024 2024)"
proof -
  have seed: "filter (contributes convFails 2024 5 6) (flagged2024 2024)
                = [\<lparr>hdate = newDate 2024 4 6, hname = daeche_gonghyuil, substitute = True\<rparr>]"
    by (simp add: flagged2024_def contributes_def ninthMonthChuseok_def convFails_def
          name_eval date_eval)
  have ty: "entryType \<lparr>hdate = newDate 2024 4 6, hname = daeche_gonghyuil, substitute = True\<rparr>
              = Substitute"
    by (simp add: entryType_def)
  have listed: "listedHoliday (newDate 2024 (5 - 1) 6) (flagged2024 2024)"
    by (simp add: flagged2024_def name_eval date_eval)
  from classifyWith_seed [OF seed] ty listed show ?thesis
    by (simp add: getAllHolidayInfo_eq noCache_holidays convFails_lunar noInfo_def
          insertionOrder_def)
qed

text \<open>
  Against claim C5 as stated: the date of the Chuseok entry converts to the seventh lunar
  month, and the entry stays in the names of the day.
\<close>

theorem chuseok_month_counterexample:
  "getAllHolidayInfo chuseok2024 (convMonth 7) noCache 2024 9 17
     = Some (\<lparr>cname = chuseok, cnames = [chuseok], ctype = Chuseok\<rparr>,
             noCache(2024 \<mapsto> chuseok2024 2024))
   \<and> convMonth 7 2024 9 17
       = Some \<lparr>lunarYear = 2024, lunarMonth = 7, lunarDay = 15, intercalation = False\<rparr>"
proof -
  have seed: "filter (contributes (convMonth 7) 2024 9 17) (chuseok2024 2024)
                = [\<lparr>hdate = newDate 2024 8 17, hname = chuseok, substitute = False\<rparr>]"
    by (simp add: chuseok2024_def contributes_def ninthMonthChuseok_def convMonth_def
          name_eval)
  have ty: "entryType \<lparr>hdate = newDate 2024 8 17, hname = chuseok, substitute = False\<rparr>
              = Chuseok"
    by (simp add: entryType_def name_eval)
  have lunar: "getLunarHolidayInfo (convMonth 7) 2024 9 17 = noInfo"
    by (rule convMonth_lunar) simp_all
  from classifyWith_seed [OF seed] ty show ?thesis
    by (simp add: getAllHolidayInfo_eq noCache_holidays lunar noInfo_def
          insertionOrder_def convMonth_def)
qed

text \<open>
  The ninth-month guard exists only in the loop of \<^verbatim>\<open>getAllHolidayInfo\<close>:
  \<^verbatim>\<open>isDateHoliday\<close> still counts an entry that the guard drops.
\<close>

lemma ninth_month_entry_still_counted:
  "isDateHoliday (convMonth 9) (newDate 2024 8 17) (chuseok2024 2024)"
  by (simp add: isDateHoliday_def chuseok2024_def name_eval)

text \<open>
  Against claim C9 as stated: 30 February 2024 is classified as 1 March (Samiljeol) after the
  list of 2024 has been fetched, and its lunar marker is the empty string after the
  converter has been asked; no error is raised.
\<close>

theorem invalid_date_counterexample:
  "getAllHolidayInfo samiljeol2024 convFails noCache 2024 2 30
     = Some (\<lparr>cname = [49340, 51068, 51208], cnames = [[49340, 51068, 51208]],
               ctype = Normal\<rparr>,
             noCache(2024 \<mapsto> samiljeol2024 2024))
   \<and> getLunarDate convFails noLunarCache 2024 2 30
       = ([], noLunarCache((2024, 2, 30) \<mapsto> []))"
proof -
  have seed: "filter (contributes convFails 2024 2 30) (samiljeol2024 2024)
                = [\<lparr>hdate = newDate 2024 2 1, hname = [49340, 51068, 51208],
                     substitute = False\<rparr>]"
    by (simp add: samiljeol2024_def contributes_def ninthMonthChuseok_def convFails_def
          name_eval date_eval)
  have ty: "entryType \<lparr>hdate = newDate 2024 2 1, hname = [49340, 51068, 51208],
                        substitute = False\<rparr> = Normal"
    by (simp add: entryType_def name_eval)
  have marker: "getLunarDate convFails noLunarCache 2024 2 30
                  = ([], noLunarCache((2024, 2, 30) \<mapsto> []))"
    by (simp add: getLunarDate_def noLunarCache_def computeLunarDate_def convFails_def)
  from classifyWith_seed [OF seed] ty marker show ?thesis
    by (simp add: getAllHolidayInfo_eq noCache_holidays convFails_lunar noInfo_def
          insertionOrder_def)
qed

text \<open>
  Monday 6 May 2024 after Eorininal on Sunday 5 May: the rule engine gives the substitute
  holiday, and the day is a workday without a holiday of its own.
\<close>

lemma childrensDay_monday:
  "getSubstituteHolidayInfo convFails 2024 5 6 (childrensDay2024 2024) = Some substituteInfo"
proof -
  have t: "newDate 2024 (5 - 1) 6 = 19849"
    by (simp add: date_eval)
  have sunday: "newDate 2024 4 5 = 19848"
    by (simp add: date_eval)
  have h1: "1 \<le> getDay (newDate 2024 (5 - 1) 6)"
    and h2: "getDay (newDate 2024 (5 - 1) 6) \<le> 5"
    unfolding t by (simp_all add: getDay_def)
  have h3: "\<not> isDateHoliday convFails (newDate 2024 (5 - 1) 6) (childrensDay2024 2024)"
    unfolding t
    by (simp add: isDateHoliday_def convFails_lunar noInfo_def childrensDay2024_def sunday)
  have k: "(1::int) \<in> {1..7}" by simp
  have on_sunday: "holidaysOnDate convFails 19848 (childrensDay2024 2024)
                     = [\<lparr>tname = [50612, 47536, 51060, 45216], ttype = Full\<rparr>]"
    by (simp add: holidaysOnDate_def convFails_lunar noInfo_def childrensDay2024_def sunday
          getHolidaySubstituteType_def group1Holidays_def name_eval)
  have h5: "shouldCreateSubstitute (getDay (newDate 2024 (5 - 1) 6 - 1))
              (holidaysOnDate convFails (newDate 2024 (5 - 1) 6 - 1) (childrensDay2024 2024))"
    unfolding t
    by (simp add: on_sunday shouldCreateSubstitute_def createsSubstitute_def getDay_def)
  have h6: "\<forall>x. newDate 2024 (5 - 1) 6 - 1 < x \<and> x < newDate 2024 (5 - 1) 6
              \<longrightarrow> getDay x = 0 \<or> getDay x = 6
                   \<or> isDateHoliday convFails x (childrensDay2024 2024)"
    by simp
  from getSubstituteHolidayInfo_found [OF h1 h2 h3 k h5 h6] show ?thesis .
qed

theorem substitute_type_means_workday_witness:
  "getAllHolidayInfo childrensDay2024 convFails Map.empty 2024 5 6
     = Some (\<lparr>cname = daeche_gonghyuil, cnames = [daeche_gonghyuil], ctype = Substitute\<rparr>,
             Map.empty(2024 \<mapsto> childrensDay2024 2024))
   \<and> filter (contributes convFails 2024 5 6)
        (fst (cachedHolidays childrensDay2024 Map.empty 2024)) = []
   \<and> 1 \<le> getDay (newDate 2024 (5 - 1) 6) \<and> getDay (newDate 2024 (5 - 1) 6) \<le> 5
   \<and> iname (getLunarHolidayInfo convFails (getFullYear (newDate 2024 (5 - 1) 6))
              (getMonth (newDate 2024 (5 - 1) 6) + 1) (getDate (newDate 2024 (5 - 1) 6))) = []"
proof -
  have seed: "filter (contributes convFails 2024 5 6) (childrensDay2024 2024) = []"
    by (simp add: childrensDay2024_def contributes_def date_eval)
  have lunar: "iname (getLunarHolidayInfo convFails 2024 5 6) = []"
    by (simp add: convFails_lunar noInfo_def)
  from classifyWith_engine [OF seed lunar] childrensDay_monday
  have h1: "getAllHolidayInfo childrensDay2024 convFails Map.empty 2024 5 6
     = Some (\<lparr>cname = daeche_gonghyuil, cnames = [daeche_gonghyuil], ctype = Substitute\<rparr>,
             Map.empty(2024 \<mapsto> childrensDay2024 2024))"
    by (simp add: getAllHolidayInfo_eq empty_holidays)
  have h2: "ctype \<lparr>cname = daeche_gonghyuil, cnames = [daeche_gonghyuil],
                   ctype = Substitute\<rparr> = Substitute"
    by simp
  have seed': "filter (contributes convFails 2024 5 6)
                 (fst (cachedHolidays childrensDay2024 Map.empty 2024)) = []"
    by (simp add: empty_holidays seed)
  have h3: "case filter (contributes convFails 2024 5 6)
                   (fst (cachedHolidays childrensDay2024 Map.empty 2024)) of
              [] \<Rightarrow> True | h # rest \<Rightarrow> \<not> substitute h"
    by (simp add: seed')
  from substitute_type_means_workday [OF h1 h2 h3] h1 seed' show ?thesis
    by simp
qed

text \<open>The Chuseok entry of 17 September 2024 under a converter that reports the ninth month.\<close>

theorem ninth_month_chuseok_dropped_witness:
  "convMonth 9 2024 9 17
     = Some \<lparr>lunarYear = 2024, lunarMonth = 9, lunarDay = 15, intercalation = False\<rparr>
   \<and> (\<exists>c cache'. getAllHolidayInfo chuseok2024 (convMonth 9) Map.empty 2024 9 17
                    = Some (c, cache')
          \<and> (\<forall>n \<in> set (cnames c). \<not> str_includes n chuseok)
          \<and> \<not> str_includes (cname c) chuseok)"
proof -
  have h1: "convMonth 9 2024 9 17
     = Some \<lparr>lunarYear = 2024, lunarMonth = 9, lunarDay = 15, intercalation = False\<rparr>"
    by (simp add: convMonth_def)
  have h2: "lunarMonth \<lparr>lunarYear = 2024, lunarMonth = 9, lunarDay = 15,
                         intercalation = False\<rparr> = 9"
    by simp
  have h3: "lunarDay \<lparr>lunarYear = 2024, lunarMonth = 9, lunarDay = 15,
                       intercalation = False\<rparr> = 14
            \<or> lunarDay \<lparr>lunarYear = 2024, lunarMonth = 9, lunarDay = 15,
                          intercalation = False\<rparr> = 15
            \<or> lunarDay \<lparr>lunarYear = 2024, lunarMonth = 9, lunarDay = 15,
                          intercalation = False\<rparr> = 16"
    by simp
  from ninth_month_chuseok_dropped
         [where conv = "convMonth 9" and y = 2024 and m = 9 and d = 17
            and holidays = chuseok2024 and cache = Map.empty, OF h1 h2 h3] h1
  show ?thesis by blast
qed

text \<open>Wednesday 17 July 2024, with Jeheonjeol as the only entry of the source.\<close>

theorem jeheonjeol_never_counted_witness:
  "\<not> isDateHoliday convFails (newDate 2024 6 17) (jeheonjeol2024 2024)
   \<and> holidaysOnDate convFails (newDate 2024 6 17) (jeheonjeol2024 2024) = []
   \<and> (\<exists>c cache'. getAllHolidayInfo jeheonjeol2024 convFails Map.empty 2024 7 17
                    = Some (c, cache')
          \<and> (\<forall>n \<in> set (cnames c). \<not> str_includes n jeheonjeol)
          \<and> \<not> str_includes (cname c) jeheonjeol)"
proof -
  have removed: "filter (\<lambda>h. \<not> str_includes (hname h) jeheonjeol) (jeheonjeol2024 2024) = []"
    by (simp add: jeheonjeol2024_def name_eval)
  have a: "\<not> isDateHoliday convFails (newDate 2024 6 17) []"
    by (simp add: isDateHoliday_def convFails_lunar noInfo_def)
  have b: "holidaysOnDate convFails (newDate 2024 6 17) [] = []"
    by (simp add: holidaysOnDate_def convFails_lunar noInfo_def)
  from jeheonjeol_never_counted
         [of jeheonjeol2024 convFails Map.empty 2024 7 17 "newDate 2024 6 17"
             "jeheonjeol2024 2024"]
       a b
  show ?thesis
    by (simp add: removed)
qed

text \<open>30 February 2024 with a converter that fails.\<close>

theorem no_date_validation_witness:
  "noLunarCache (2024, 2, 30) = None \<and> convFails 2024 2 30 = None
   \<and> newDate 2024 (2 - 1) 30 = newDate 2024 (3 - 1) 1
   \<and> getLunarDate convFails noLunarCache 2024 2 30
       = ([], noLunarCache((2024, 2, 30) \<mapsto> []))
   \<and> getAllHolidayInfo samiljeol2024 convFails noCache 2024 2 30
       = getAllHolidayInfo samiljeol2024 convFails noCache 2024 3 1
   \<and> (\<exists>c. getAllHolidayInfo samiljeol2024 convFails noCache 2024 2 30
             = Some (c, noCache(2024 \<mapsto> samiljeol2024 2024)))"
proof -
  have h1: "noLunarCache (2024, 2, 30) = None"
    by (simp add: noLunarCache_def)
  have h2: "convFails 2024 2 30 = None"
    by (simp add: convFails_def)
  have h3: "newDate 2024 (2 - 1) 30 = newDate 2024 (3 - 1) 1"
    by (simp add: date_eval)
  have h4: "convFails 2024 2 30 = convFails 2024 3 1"
    by (simp add: convFails_def)
  from no_date_validation
         [of samiljeol2024 convFails noCache 2024 2 30 3 1 noLunarCache] h1 h2 h3 h4
  show ?thesis
    by (auto simp: noCache_holidays)
qed

text \<open>
  Monday 2 January 2023 under two sources that differ in 2022 only; the look-back reaches
  into December 2022.
\<close>

theorem other_years_irrelevant_witness:
  "cacheOf christmas2022 Map.empty \<and> cacheOf noHolidays Map.empty
   \<and> christmas2022 2023 = noHolidays 2023
   \<and> christmas2022 2022 \<noteq> noHolidays 2022
   \<and> map_option fst (getAllHolidayInfo christmas2022 convFails Map.empty 2023 1 2)
       = map_option fst (getAllHolidayInfo noHolidays convFails Map.empty 2023 1 2)"
proof -
  have h1: "cacheOf christmas2022 Map.empty"
    by (simp add: cacheOf_def)
  have h2: "cacheOf noHolidays Map.empty"
    by (simp add: cacheOf_def)
  have h3: "christmas2022 2023 = noHolidays 2023"
    by (simp add: christmas2022_def noHolidays_def)
  have differ: "christmas2022 2022 \<noteq> noHolidays 2022"
    by (simp add: christmas2022_def noHolidays_def)
  from other_years_irrelevant [OF h1 h2 h3, of convFails 1 2] h1 h2 h3 differ
  show ?thesis by simp
qed

subsection \<open>The substitute search without the ninth-month guard\<close>

lemma october_2022_days: "newDate 2022 9 9 = 19274" "newDate 2022 9 10 = 19275"
  by (simp_all add: date_eval)

lemma october_2019_days: "newDate 2019 9 13 = 18182" "newDate 2019 9 14 = 18183"
  by (simp_all add: date_eval)

lemma ninth_month_lunar: "getLunarHolidayInfo (convMonth 9) y m d = noInfo"
  by (rule convMonth_lunar) simp_all

text \<open>
  Claim C1 does not hold of the code. Monday 10 October 2022 carries only a Chuseok entry
  that falls on the 15th of the ninth lunar month, which the classification drops: the day
  has no contributing entry and no lunar holiday. The origin one day back, Sunday 9 October,
  carries Hangeullal, of group Full. The claim gives the substitute holiday;
  \<^verbatim>\<open>isDateHoliday\<close>, which has no ninth-month guard, counts the dropped entry, so
  \<^verbatim>\<open>getSubstituteHolidayInfo\<close> returns the empty name and the day is classified with
  no name and no type.
\<close>

theorem misdated_chuseok_blocks_substitute:
  "getDay (newDate 2022 (10 - 1) 10) = 1
   \<and> filter (contributes (convMonth 9) 2022 10 10) (hangeul2022 2022) = []
   \<and> iname (getLunarHolidayInfo (convMonth 9) 2022 10 10) = []
   \<and> getDay (newDate 2022 (10 - 1) 10 - 1) = 0
   \<and> filter (contributes (convMonth 9) 2022 10 9) (hangeul2022 2022)
       = [\<lparr>hdate = newDate 2022 9 9, hname = [54620, 44544, 45216], substitute = False\<rparr>]
   \<and> getHolidaySubstituteType [54620, 44544, 45216] = Full
   \<and> isDateHoliday (convMonth 9) (newDate 2022 (10 - 1) 10) (hangeul2022 2022)
   \<and> getSubstituteHolidayInfo (convMonth 9) 2022 10 10 (hangeul2022 2022) = Some noInfo
   \<and> getAllHolidayInfo hangeul2022 (convMonth 9) noCache 2022 10 10
       = Some (\<lparr>cname = [], cnames = [], ctype = NoType\<rparr>,
               noCache(2022 \<mapsto> hangeul2022 2022))"
proof -
  have monday: "getDay (newDate 2022 (10 - 1) 10) = 1"
    by (simp add: october_2022_days getDay_def)
  have sunday: "getDay (newDate 2022 (10 - 1) 10 - 1) = 0"
    by (simp add: october_2022_days getDay_def)
  have cleaned: "filter (contributes (convMonth 9) 2022 10 10) (hangeul2022 2022) = []"
    by (simp add: hangeul2022_def contributes_def ninthMonthChuseok_def convMonth_def
          october_2022_days name_eval)
  have lunar: "iname (getLunarHolidayInfo (convMonth 9) 2022 10 10) = []"
    by (simp add: ninth_month_lunar noInfo_def)
  have origin: "filter (contributes (convMonth 9) 2022 10 9) (hangeul2022 2022)
       = [\<lparr>hdate = newDate 2022 9 9, hname = [54620, 44544, 45216], substitute = False\<rparr>]"
    by (simp add: hangeul2022_def contributes_def ninthMonthChuseok_def convMonth_def
          october_2022_days name_eval)
  have full: "getHolidaySubstituteType [54620, 44544, 45216] = Full"
    by (simp add: getHolidaySubstituteType_def group1Holidays_def)
  have counted: "isDateHoliday (convMonth 9) (newDate 2022 (10 - 1) 10) (hangeul2022 2022)"
    by (simp add: isDateHoliday_def hangeul2022_def october_2022_days name_eval)
  from monday counted
  have engine: "getSubstituteHolidayInfo (convMonth 9) 2022 10 10 (hangeul2022 2022)
                  = Some noInfo"
    by (simp add: getSubstituteHolidayInfo_def Let_def)
  have ne: "Some noInfo \<noteq> Some substituteInfo"
    by (simp add: noInfo_def substituteInfo_def)
  from classifyWith_engine [OF cleaned lunar] engine ne
  have "getAllHolidayInfo hangeul2022 (convMonth 9) noCache 2022 10 10
       = Some (\<lparr>cname = [], cnames = [], ctype = NoType\<rparr>,
               noCache(2022 \<mapsto> hangeul2022 2022))"
    by (simp add: getAllHolidayInfo_eq noCache_holidays)
  with monday sunday cleaned lunar origin full counted engine show ?thesis
    by simp
qed

lemma monday_after_misdated_sunday:
  "getSubstituteHolidayInfo (convMonth 9) 2019 10 14 (chuseok2019 2019) = Some substituteInfo"
proof -
  have t: "newDate 2019 (10 - 1) 14 = 18183"
    by (simp add: date_eval)
  have h1: "1 \<le> getDay (newDate 2019 (10 - 1) 14)"
    and h2: "getDay (newDate 2019 (10 - 1) 14) \<le> 5"
    unfolding t by (simp_all add: getDay_def)
  have h3: "\<not> isDateHoliday (convMonth 9) (newDate 2019 (10 - 1) 14) (chuseok2019 2019)"
    unfolding t
    by (simp add: isDateHoliday_def ninth_month_lunar noInfo_def chuseok2019_def
          october_2019_days)
  have k: "(1::int) \<in> {1..7}" by simp
  have on_sunday: "holidaysOnDate (convMonth 9) 18182 (chuseok2019 2019)
                     = [\<lparr>tname = chuseok, ttype = SundayOnly\<rparr>]"
    by (simp add: holidaysOnDate_def ninth_month_lunar noInfo_def chuseok2019_def
          october_2019_days getHolidaySubstituteType_def group1Holidays_def
          group2Holidays_def name_eval)
  have h5: "shouldCreateSubstitute (getDay (newDate 2019 (10 - 1) 14 - 1))
              (holidaysOnDate (convMonth 9) (newDate 2019 (10 - 1) 14 - 1) (chuseok2019 2019))"
    unfolding t
    by (simp add: on_sunday shouldCreateSubstitute_def createsSubstitute_def getDay_def)
  have h6: "\<forall>x. newDate 2019 (10 - 1) 14 - 1 < x \<and> x < newDate 2019 (10 - 1) 14
              \<longrightarrow> getDay x = 0 \<or> getDay x = 6
                   \<or> isDateHoliday (convMonth 9) x (chuseok2019 2019)"
    by simp
  from getSubstituteHolidayInfo_found [OF h1 h2 h3 k h5 h6] show ?thesis .
qed

text \<open>
  Claim C2 does not hold of the code. Sunday 13 October 2019 carries only a Chuseok entry
  that falls on the 15th of the ninth lunar month, which the classification drops: the
  origin has no contributing entry and no lunar holiday, so nothing there requires
  substitution. The loop of \<^verbatim>\<open>checkForSubstituteHoliday\<close>, which has no ninth-month
  guard, collects the entry with group SundayOnly, substitution is required, and Monday 14
  October is classified as a substitute holiday.
\<close>

theorem misdated_chuseok_requires_substitute:
  "getDay (newDate 2019 9 13) = 0
   \<and> filter (contributes (convMonth 9) 2019 10 13) (chuseok2019 2019) = []
   \<and> iname (getLunarHolidayInfo (convMonth 9) 2019 10 13) = []
   \<and> holidaysOnDate (convMonth 9) (newDate 2019 9 13) (chuseok2019 2019)
       = [\<lparr>tname = chuseok, ttype = SundayOnly\<rparr>]
   \<and> shouldCreateSubstitute (getDay (newDate 2019 9 13))
        (holidaysOnDate (convMonth 9) (newDate 2019 9 13) (chuseok2019 2019))
   \<and> getAllHolidayInfo chuseok2019 (convMonth 9) noCache 2019 10 14
       = Some (\<lparr>cname = daeche_gonghyuil, cnames = [daeche_gonghyuil], ctype = Substitute\<rparr>,
               noCache(2019 \<mapsto> chuseok2019 2019))"
proof -
  have sunday: "getDay (newDate 2019 9 13) = 0"
    by (simp add: october_2019_days getDay_def)
  have cleaned: "filter (contributes (convMonth 9) 2019 10 13) (chuseok2019 2019) = []"
    by (simp add: chuseok2019_def contributes_def ninthMonthChuseok_def convMonth_def
          name_eval)
  have lunar: "iname (getLunarHolidayInfo (convMonth 9) 2019 10 13) = []"
    by (simp add: ninth_month_lunar noInfo_def)
  have collected: "holidaysOnDate (convMonth 9) (newDate 2019 9 13) (chuseok2019 2019)
                     = [\<lparr>tname = chuseok, ttype = SundayOnly\<rparr>]"
    by (simp add: holidaysOnDate_def ninth_month_lunar noInfo_def chuseok2019_def
          getHolidaySubstituteType_def group1Holidays_def group2Holidays_def name_eval)
  have required: "shouldCreateSubstitute (getDay (newDate 2019 9 13))
        (holidaysOnDate (convMonth 9) (newDate 2019 9 13) (chuseok2019 2019))"
    by (simp add: collected sunday shouldCreateSubstitute_def createsSubstitute_def)
  have seed: "filter (contributes (convMonth 9) 2019 10 14) (chuseok2019 2019) = []"
    by (simp add: chuseok2019_def contributes_def date_eval)
  have lunar': "iname (getLunarHolidayInfo (convMonth 9) 2019 10 14) = []"
    by (simp add: ninth_month_lunar noInfo_def)
  from classifyWith_engine [OF seed lunar'] monday_after_misdated_sunday
  have "getAllHolidayInfo chuseok2019 (convMonth 9) noCache 2019 10 14
       = Some (\<lparr>cname = daeche_gonghyuil, cnames = [daeche_gonghyuil], ctype = Substitute\<rparr>,
               noCache(2019 \<mapsto> chuseok2019 2019))"
    by (simp add: getAllHolidayInfo_eq noCache_holidays)
  with sunday cleaned lunar collected required show ?thesis
    by simp
qed

end
